theory Spec2Isabelle
  imports Complex_Main "HOL-Library.Char_ord" "HOL-Library.List_Lexorder"
    "HOL-Library.Multiset" "HOL-Library.Sublist"
begin

section \<open>The data model of nba_dashboard.py\<close>

text \<open>
  The script keeps one pandas DataFrame, read from \<^verbatim>\<open>top_25_nba_players.csv\<close>. A row
  is a player; the string columns are name, team, position and season, the numeric ones
  ppg, rpg, apg, spg, bpg, fg_pct and efficiency. Numeric cells are finite numbers and are
  modelled as reals; the not-a-number that pandas returns for the mean or the maximum of
  an empty column is the value \<open>NaN\<close> of \<open>fnum\<close>. A metric carries the text the
  f-string hands to it, the number written with one decimal.
\<close>

record PlayerRecord =
  name :: string
  team :: string
  position :: string
  ppg :: real
  rpg :: real
  apg :: real
  spg :: real
  bpg :: real
  fg_pct :: real
  efficiency :: real
  season :: string

datatype str_column = Name | Team | Position | Season

datatype num_column = Ppg | Rpg | Apg | Spg | Bpg | Fg_pct | Efficiency

datatype column = StrCol str_column | NumCol num_column

text \<open>The label of a column in the CSV header and in the script's subscripts.\<close>

fun header :: "column \<Rightarrow> string" where
  "header (StrCol Name) = ''name''"
| "header (StrCol Team) = ''team''"
| "header (StrCol Position) = ''position''"
| "header (StrCol Season) = ''season''"
| "header (NumCol Ppg) = ''ppg''"
| "header (NumCol Rpg) = ''rpg''"
| "header (NumCol Apg) = ''apg''"
| "header (NumCol Spg) = ''spg''"
| "header (NumCol Bpg) = ''bpg''"
| "header (NumCol Fg_pct) = ''fg_pct''"
| "header (NumCol Efficiency) = ''efficiency''"

fun str_field :: "str_column \<Rightarrow> PlayerRecord \<Rightarrow> string" where
  "str_field Name r = name r"
| "str_field Team r = team r"
| "str_field Position r = position r"
| "str_field Season r = season r"

fun num_field :: "num_column \<Rightarrow> PlayerRecord \<Rightarrow> real" where
  "num_field Ppg r = ppg r"
| "num_field Rpg r = rpg r"
| "num_field Apg r = apg r"
| "num_field Spg r = spg r"
| "num_field Bpg r = bpg r"
| "num_field Fg_pct r = fg_pct r"
| "num_field Efficiency r = efficiency r"

text \<open>
  A DataFrame is the list of the column labels it carries and its rows in index order.
  A label that is not in \<open>columns\<close> is a column the frame does not have: every
  subscript \<^verbatim>\<open>df['c']\<close> looks the label up first and raises KeyError when it is
  missing, so a field of a row is read only under a label that is present.
\<close>

record DataFrame =
  columns :: "column list"
  rows :: "PlayerRecord list"

datatype error =
    FileNotFoundError
  | ParserError
  | KeyError column
  | IndexError
  | ValueError

datatype fnum = NaN | Fin real

subsection \<open>Exceptions as values\<close>

definition bind_e :: "error + 'a \<Rightarrow> ('a \<Rightarrow> error + 'b) \<Rightarrow> error + 'b" where
  "bind_e m f = (case m of Inl e \<Rightarrow> Inl e | Inr x \<Rightarrow> f x)"

subsection \<open>The pandas operations the script calls\<close>

text \<open>\<^verbatim>\<open>df['c']\<close> for a string column and for a numeric column.\<close>

definition series_str :: "DataFrame \<Rightarrow> str_column \<Rightarrow> error + string list" where
  "series_str df c =
     (if StrCol c \<in> set (columns df) then Inr (map (str_field c) (rows df))
      else Inl (KeyError (StrCol c)))"

definition series_num :: "DataFrame \<Rightarrow> num_column \<Rightarrow> error + real list" where
  "series_num df c =
     (if NumCol c \<in> set (columns df) then Inr (map (num_field c) (rows df))
      else Inl (KeyError (NumCol c)))"

text \<open>\<^verbatim>\<open>df[mask]\<close>: the rows at which the boolean mask is True, in their order.\<close>

definition boolean_index :: "DataFrame \<Rightarrow> bool list \<Rightarrow> DataFrame" where
  "boolean_index df flags = df\<lparr>rows := map fst (filter snd (zip (rows df) flags))\<rparr>"

text \<open>
  \<^verbatim>\<open>df[df['c'] == v]\<close>. The value compared with is a widget's, which is None when
  the widget has no option to offer; None equals no cell.
\<close>

definition select_eq :: "DataFrame \<Rightarrow> str_column \<Rightarrow> string option \<Rightarrow> error + DataFrame" where
  "select_eq df c v =
     bind_e (series_str df c) (\<lambda>s. Inr (boolean_index df (map (\<lambda>x. Some x = v) s)))"

text \<open>\<^verbatim>\<open>df[df['c'].isin(vs)]\<close>.\<close>

definition select_isin :: "DataFrame \<Rightarrow> str_column \<Rightarrow> string list \<Rightarrow> error + DataFrame" where
  "select_isin df c vs =
     bind_e (series_str df c) (\<lambda>s. Inr (boolean_index df (map (\<lambda>x. x \<in> set vs) s)))"

text \<open>\<^verbatim>\<open>Series.unique()\<close>: the distinct values in order of first appearance.\<close>

definition unique :: "'a list \<Rightarrow> 'a list" where
  "unique xs = rev (remdups (rev xs))"

text \<open>\<^verbatim>\<open>df['c'] = v\<close>: every row gets the value; a new label goes last.\<close>

definition assign_season :: "DataFrame \<Rightarrow> string \<Rightarrow> DataFrame" where
  "assign_season df v =
     \<lparr>columns = (if StrCol Season \<in> set (columns df) then columns df
                 else columns df @ [StrCol Season]),
      rows = map (\<lambda>r. r\<lparr>season := v\<rparr>) (rows df)\<rparr>"

text \<open>\<^verbatim>\<open>Series.mean()\<close> and \<^verbatim>\<open>Series.max()\<close>: NaN on an empty series.\<close>

definition mean :: "real list \<Rightarrow> fnum" where
  "mean xs = (if xs = [] then NaN else Fin (sum_list xs / real (length xs)))"

definition series_max :: "real list \<Rightarrow> fnum" where
  "series_max xs = (if xs = [] then NaN else Fin (fold max (tl xs) (hd xs)))"

text \<open>\<^verbatim>\<open>.iloc[0]\<close>: the first row, IndexError on an empty frame.\<close>

definition iloc0 :: "DataFrame \<Rightarrow> error + PlayerRecord" where
  "iloc0 df = (case rows df of [] \<Rightarrow> Inl IndexError | r # _ \<Rightarrow> Inr r)"

section \<open>Load\<close>

text \<open>
  What \<^verbatim>\<open>pd.read_csv("top_25_nba_players.csv")\<close> finds: no file, a file it cannot
  parse, or a table. A file that parses but lacks a column is a table without that label.
\<close>

datatype csv_source = Missing | Malformed | Parsed DataFrame

definition read_csv :: "csv_source \<Rightarrow> error + DataFrame" where
  "read_csv src =
     (case src of
        Missing \<Rightarrow> Inl FileNotFoundError
      | Malformed \<Rightarrow> Inl ParserError
      | Parsed t \<Rightarrow> Inr t)"

definition load_data :: "csv_source \<Rightarrow> error + DataFrame" where
  "load_data src = bind_e (read_csv src) (\<lambda>df. Inr (assign_season df ''2024-25''))"

text \<open>
  \<^verbatim>\<open>@st.cache_data\<close>: the first call that returns stores its table; every later call
  of the process returns the stored table and does not read the file. A call that raises
  stores nothing.
\<close>

definition load_data_cached ::
  "DataFrame option \<Rightarrow> csv_source \<Rightarrow> DataFrame option \<times> (error + DataFrame)" where
  "load_data_cached cache src =
     (case cache of
        Some df \<Rightarrow> (cache, Inr df)
      | None \<Rightarrow>
          (case load_data src of
             Inl e \<Rightarrow> (None, Inl e)
           | Inr df \<Rightarrow> (Some df, Inr df)))"

section \<open>Aggregations\<close>

text \<open>
  \<^verbatim>\<open>df.nlargest(n, c)\<close> with the default \<^verbatim>\<open>keep='first'\<close>, as pandas computes it: the
  column is negated, the n-th smallest value of the negated column is found, the rows up to
  that value are sorted by a stable sort, and the first n are kept.
\<close>

definition nlargest :: "nat \<Rightarrow> num_column \<Rightarrow> DataFrame \<Rightarrow> error + DataFrame" where
  "nlargest n c df =
     bind_e (series_num df c) (\<lambda>s.
       let arr = map uminus s;
           m = min n (length arr)
       in if m = 0 then Inr (df\<lparr>rows := []\<rparr>)
          else
            let kth_val = sort arr ! (m - 1);
                ns = filter (\<lambda>r. - num_field c r \<le> kth_val) (rows df);
                inds = sort_key (\<lambda>r. - num_field c r) ns
            in Inr (df\<lparr>rows := take m inds\<rparr>))"

text \<open>
  \<^verbatim>\<open>Series.value_counts()\<close>: each distinct value with the number of its occurrences,
  the most frequent first; equal counts stay in order of first appearance.
\<close>

definition value_counts :: "string list \<Rightarrow> (string \<times> nat) list" where
  "value_counts xs =
     sort_key (\<lambda>p. - int (snd p)) (map (\<lambda>v. (v, count_list xs v)) (unique xs))"

text \<open>
  \<^verbatim>\<open>df.groupby(k).agg({'ppg': 'mean', 'rpg': 'mean', 'apg': 'mean', 'efficiency': 'mean'})\<close>
  followed by \<^verbatim>\<open>reset_index()\<close>: one row per key, the keys in ascending order.
\<close>

type_synonym group_stats = "string \<times> fnum \<times> fnum \<times> fnum \<times> fnum"

definition group_means :: "DataFrame \<Rightarrow> str_column \<Rightarrow> error + group_stats list" where
  "group_means df k =
     bind_e (series_str df k) (\<lambda>keys.
     bind_e (series_num df Ppg) (\<lambda>_.
     bind_e (series_num df Rpg) (\<lambda>_.
     bind_e (series_num df Apg) (\<lambda>_.
     bind_e (series_num df Efficiency) (\<lambda>_.
       Inr (map (\<lambda>g.
              let grp = filter (\<lambda>r. str_field k r = g) (rows df)
              in (g, mean (map ppg grp), mean (map rpg grp), mean (map apg grp),
                  mean (map efficiency grp)))
            (sort (unique keys))))))))"

text \<open>
  \<^verbatim>\<open>melt\<close> of the group means: the ppg rows of every key, then rpg, apg and efficiency.
\<close>

definition melt_stats :: "group_stats list \<Rightarrow> (string \<times> string \<times> fnum) list" where
  "melt_stats st =
     map (\<lambda>(k, p, r, a, e). (k, ''ppg'', p)) st @
     map (\<lambda>(k, p, r, a, e). (k, ''rpg'', r)) st @
     map (\<lambda>(k, p, r, a, e). (k, ''apg'', a)) st @
     map (\<lambda>(k, p, r, a, e). (k, ''efficiency'', e)) st"

text \<open>
  \<^verbatim>\<open>comparison_df[['name', 'ppg', 'rpg', 'apg']].melt(id_vars=['name'], ...)\<close>.
\<close>

definition melt_players :: "DataFrame \<Rightarrow> error + (string \<times> string \<times> real) list" where
  "melt_players df =
     bind_e (series_str df Name) (\<lambda>ns.
     bind_e (series_num df Ppg) (\<lambda>p.
     bind_e (series_num df Rpg) (\<lambda>r.
     bind_e (series_num df Apg) (\<lambda>a.
       Inr (map (\<lambda>(n, v). (n, ''ppg'', v)) (zip ns p) @
            map (\<lambda>(n, v). (n, ''rpg'', v)) (zip ns r) @
            map (\<lambda>(n, v). (n, ''apg'', v)) (zip ns a))))))"

text \<open>A field of the row \<^verbatim>\<open>.iloc[0]\<close> returned: \<^verbatim>\<open>player_stats['c']\<close>.\<close>

definition row_num :: "DataFrame \<Rightarrow> PlayerRecord \<Rightarrow> num_column \<Rightarrow> error + real" where
  "row_num df r c =
     (if NumCol c \<in> set (columns df) then Inr (num_field c r) else Inl (KeyError (NumCol c)))"

definition row_str :: "DataFrame \<Rightarrow> PlayerRecord \<Rightarrow> str_column \<Rightarrow> error + string" where
  "row_str df r c =
     (if StrCol c \<in> set (columns df) then Inr (str_field c r) else Inl (KeyError (StrCol c)))"

text \<open>Python's builtin \<^verbatim>\<open>max\<close>: ValueError on an empty sequence.\<close>

definition py_max :: "real list \<Rightarrow> error + real" where
  "py_max xs = (if xs = [] then Inl ValueError else Inr (fold max (tl xs) (hd xs)))"

text \<open>
  The format \<^verbatim>\<open>:.1f\<close> of the f-strings: the sign, the integer part, a point and one
  digit, the value rounded to the nearest tenth and a tie to the even digit; not-a-number
  is written \<^verbatim>\<open>nan\<close>. The rounding is that of the real number: a float is formatted
  from its exact binary value, so the two agree wherever the float is the number itself.
\<close>

fun digits :: "nat \<Rightarrow> string" where
  "digits n =
     (if n < 10 then [char_of (48 + n)] else digits (n div 10) @ [char_of (48 + n mod 10)])"

definition round_half_even :: "real \<Rightarrow> int" where
  "round_half_even y =
     (let f = \<lfloor>y\<rfloor>; d = y - of_int f
      in if d < 1 / 2 then f else if 1 / 2 < d then f + 1 else if even f then f else f + 1)"

definition format_1f :: "real \<Rightarrow> string" where
  "format_1f x =
     (let n = nat (round_half_even (\<bar>x\<bar> * 10))
      in (if x < 0 then ''-'' else []) @ digits (n div 10) @ ''.'' @ digits (n mod 10))"

fun format_fnum :: "fnum \<Rightarrow> string" where
  "format_fnum NaN = ''nan''"
| "format_fnum (Fin x) = format_1f x"

text \<open>A list comprehension or a for loop whose body may raise: it stops at the first error.\<close>

fun map_e :: "('a \<Rightarrow> error + 'b) \<Rightarrow> 'a list \<Rightarrow> error + 'b list" where
  "map_e f [] = Inr []"
| "map_e f (x # xs) = bind_e (f x) (\<lambda>y. bind_e (map_e f xs) (\<lambda>ys. Inr (y # ys)))"

text \<open>
  Lines 152 and 158: the points per game the Individual Stats tab reads for a player,
  \<^verbatim>\<open>df[df['name'] == p].iloc[0]['ppg']\<close>.
\<close>

definition individual_ppg :: "DataFrame \<Rightarrow> string \<Rightarrow> error + real" where
  "individual_ppg df p =
     bind_e (bind_e (select_eq df Name (Some p)) iloc0) (\<lambda>player_stats.
       row_num df player_stats Ppg)"

text \<open>\<^verbatim>\<open>', '.join(xs)\<close>.\<close>

fun join :: "string \<Rightarrow> string list \<Rightarrow> string" where
  "join sep [] = []"
| "join sep [x] = x"
| "join sep (x # y # ys) = x @ sep @ join sep (y # ys)"

text \<open>plotly express raises ValueError when a column it is told to plot is not in the frame.\<close>

definition px_columns :: "DataFrame \<Rightarrow> column list \<Rightarrow> error + unit" where
  "px_columns df cs = (if set cs \<subseteq> set (columns df) then Inr () else Inl ValueError)"

section \<open>The page\<close>

text \<open>
  The state of the widgets when the script runs: what the two sidebar select boxes, the
  multiselect and the select box of the second tab return. A select box with no option
  returns None.
\<close>

record Widgets =
  selected_season :: "string option"
  selected_players :: "string list"
  selected_position :: string
  selected_player :: "string option"

datatype place = Sidebar | Body | Tab1 | Tab2 | Tab3 | Tab4

datatype figure =
    Fig_comparison "(string \<times> string \<times> real) list"
  | Fig_radar "(string \<times> real list) list" real
  | Fig_player "(string \<times> real) list"
  | Fig_position "(string \<times> nat) list"
  | Fig_position_stats "(string \<times> string \<times> fnum) list"
  | Fig_scatter DataFrame
  | Fig_heatmap "group_stats list"
  | Fig_bar DataFrame
  | Fig_team "(string \<times> nat) list"

datatype element =
    Title string
  | Markdown string
  | Header string
  | Subheader string
  | Write string
  | Info string
  | Tabs "string list"
  | Selectbox string "string list"
  | Multiselect string "string list" "string list"
  | Metric string string "string option"
  | Plotly_chart figure

text \<open>
  Streamlit sends an element to the browser when the script calls it, so an exception
  leaves the elements emitted before it on the page. A run is the elements emitted, in
  order, with the exception that ended it or the value it returned.
\<close>

type_synonym 'a render = "(place \<times> element) list \<times> (error + 'a)"

definition emit :: "place \<Rightarrow> element \<Rightarrow> unit render" where
  "emit p e = ([(p, e)], Inr ())"

definition lift_r :: "error + 'a \<Rightarrow> 'a render" where
  "lift_r m = ([], m)"

definition bind_r :: "'a render \<Rightarrow> ('a \<Rightarrow> 'b render) \<Rightarrow> 'b render" where
  "bind_r m f =
     (case m of
        (out, Inl e) \<Rightarrow> (out, Inl e)
      | (out, Inr x) \<Rightarrow> (case f x of (out', r) \<Rightarrow> (out @ out', r)))"

text \<open>The basketball emoji of the titles, as its UTF-8 bytes.\<close>

definition basketball :: string where
  "basketball = [CHR 0xF0, CHR 0x9F, CHR 0x8F, CHR 0x80]"

definition categories :: "num_column list" where
  "categories = [Ppg, Rpg, Apg, Spg, Bpg]"

text \<open>Lines 26 to 63: the sidebar, the two filters, the title and the tabs.\<close>

definition sidebar :: "DataFrame \<Rightarrow> Widgets \<Rightarrow> DataFrame render" where
  "sidebar df w =
     bind_r (emit Sidebar (Title (basketball @ '' NBA Players Dashboard''))) (\<lambda>_.
     bind_r (emit Sidebar (Markdown ''---'')) (\<lambda>_.
     bind_r (lift_r (series_str df Season)) (\<lambda>ss.
     bind_r (emit Sidebar (Selectbox ''Select Season'' (rev (sort (unique ss))))) (\<lambda>_.
     bind_r (lift_r (select_eq df Season (selected_season w))) (\<lambda>filtered_df.
     bind_r (emit Sidebar (Markdown ''---'')) (\<lambda>_.
     bind_r (emit Sidebar (Title ''Compare Players'')) (\<lambda>_.
     bind_r (lift_r (series_str df Name)) (\<lambda>ns.
     bind_r (emit Sidebar
               (Multiselect ''Select Players to Compare'' (unique ns) (take 2 ns))) (\<lambda>_.
     bind_r (lift_r (series_str df Position)) (\<lambda>ps.
     bind_r (emit Sidebar (Selectbox ''Filter by Position'' (''All'' # unique ps))) (\<lambda>_.
     bind_r (if selected_position w \<noteq> ''All''
             then lift_r (select_eq filtered_df Position (Some (selected_position w)))
             else lift_r (Inr filtered_df)) (\<lambda>filtered_df.
     bind_r (emit Body (Title (basketball @ '' NBA Players Performance Analysis''))) (\<lambda>_.
     bind_r (emit Body (Markdown ''---'')) (\<lambda>_.
     bind_r (emit Body (Tabs [''Player Comparison'', ''Individual Stats'',
                              ''Position Analysis'', ''Team Analysis''])) (\<lambda>_.
     lift_r (Inr filtered_df))))))))))))))))"

text \<open>Lines 78 to 89: one metric of the comparison, the mean with the maximum below it.\<close>

definition comparison_metric :: "DataFrame \<Rightarrow> string \<Rightarrow> num_column \<Rightarrow> unit render" where
  "comparison_metric comparison_df label c =
     bind_r (lift_r (series_num comparison_df c)) (\<lambda>s.
     emit Tab1
       (Metric label (format_fnum (mean s)) (Some (''Max: '' @ format_fnum (series_max s)))))"

text \<open>Lines 115 to 124: the traces of the radar chart, one per selected player.\<close>

definition radar_trace :: "DataFrame \<Rightarrow> string \<Rightarrow> error + (string \<times> real list)" where
  "radar_trace comparison_df player =
     bind_e (select_eq comparison_df Name (Some player)) (\<lambda>sel.
     bind_e (iloc0 sel) (\<lambda>player_data.
     bind_e (map_e (row_num comparison_df player_data) categories) (\<lambda>vals.
       Inr (player, vals))))"

text \<open>Line 130: the upper end of the radial axis.\<close>

definition radar_range :: "DataFrame \<Rightarrow> error + real" where
  "radar_range comparison_df =
     bind_e (map_e (\<lambda>cat. bind_e (series_num comparison_df cat) py_max) categories) py_max"

text \<open>Lines 66 to 138.\<close>

definition tab1 :: "DataFrame \<Rightarrow> Widgets \<Rightarrow> unit render" where
  "tab1 filtered_df w =
     bind_r (emit Tab1 (Header ''Player Comparison'')) (\<lambda>_.
     if selected_players w \<noteq> [] then
       bind_r (emit Tab1 (Write (''Comparing: '' @ join '', '' (selected_players w)))) (\<lambda>_.
       bind_r (lift_r (select_isin filtered_df Name (selected_players w))) (\<lambda>comparison_df.
       bind_r (comparison_metric comparison_df ''Points Per Game'' Ppg) (\<lambda>_.
       bind_r (comparison_metric comparison_df ''Rebounds Per Game'' Rpg) (\<lambda>_.
       bind_r (comparison_metric comparison_df ''Assists Per Game'' Apg) (\<lambda>_.
       bind_r (lift_r (melt_players comparison_df)) (\<lambda>comparison_stats.
       bind_r (emit Tab1 (Plotly_chart (Fig_comparison comparison_stats))) (\<lambda>_.
       bind_r (lift_r (map_e (radar_trace comparison_df) (selected_players w))) (\<lambda>traces.
       bind_r (lift_r (radar_range comparison_df)) (\<lambda>top.
       emit Tab1 (Plotly_chart (Fig_radar traces top)))))))))))
     else emit Tab1 (Info ''Please select players to compare from the sidebar.''))"

text \<open>Lines 141 to 199.\<close>

definition player_metric ::
  "DataFrame \<Rightarrow> PlayerRecord \<Rightarrow> string \<Rightarrow> num_column \<Rightarrow> string \<Rightarrow> unit render" where
  "player_metric df player_stats label c unit_sign =
     bind_r (lift_r (row_num df player_stats c)) (\<lambda>v.
     emit Tab2 (Metric label (format_1f v @ unit_sign) None))"

definition tab2 :: "DataFrame \<Rightarrow> Widgets \<Rightarrow> unit render" where
  "tab2 df w =
     bind_r (emit Tab2 (Header ''Individual Player Stats'')) (\<lambda>_.
     bind_r (lift_r (series_str df Name)) (\<lambda>ns.
     bind_r (emit Tab2 (Selectbox ''Select a Player for Detailed Stats'' (unique ns))) (\<lambda>_.
     bind_r (lift_r (bind_e (select_eq df Name (selected_player w)) iloc0)) (\<lambda>player_stats.
     bind_r (player_metric df player_stats ''Points Per Game'' Ppg []) (\<lambda>_.
     bind_r (player_metric df player_stats ''Rebounds Per Game'' Rpg []) (\<lambda>_.
     bind_r (player_metric df player_stats ''Assists Per Game'' Apg []) (\<lambda>_.
     bind_r (player_metric df player_stats ''Steals Per Game'' Spg []) (\<lambda>_.
     bind_r (player_metric df player_stats ''Blocks Per Game'' Bpg []) (\<lambda>_.
     bind_r (player_metric df player_stats ''Field Goal %'' Fg_pct ''%'') (\<lambda>_.
     bind_r (player_metric df player_stats ''Efficiency'' Efficiency []) (\<lambda>_.
     bind_r (emit Tab2 (Subheader ''Player Information'')) (\<lambda>_.
     bind_r (lift_r (row_str df player_stats Team)) (\<lambda>t.
     bind_r (emit Tab2 (Write (''**Team:** '' @ t))) (\<lambda>_.
     bind_r (lift_r (row_str df player_stats Position)) (\<lambda>p.
     bind_r (emit Tab2 (Write (''**Position:** '' @ p))) (\<lambda>_.
     bind_r (lift_r (map_e (row_num df player_stats) categories)) (\<lambda>vals.
     emit Tab2 (Plotly_chart
       (Fig_player (zip [''PPG'', ''RPG'', ''APG'', ''SPG'', ''BPG''] vals))))))))))))))))))))"

text \<open>
  Lines 202 to 254. The pie chart and the bar chart are built from \<open>df\<close>, the scatter
  plot from \<open>filtered_df\<close>.
\<close>

definition position_counts :: "DataFrame \<Rightarrow> error + (string \<times> nat) list" where
  "position_counts df = bind_e (series_str df Position) (\<lambda>ps. Inr (value_counts ps))"

definition position_stats :: "DataFrame \<Rightarrow> error + group_stats list" where
  "position_stats df = group_means df Position"

definition tab3 :: "DataFrame \<Rightarrow> DataFrame \<Rightarrow> unit render" where
  "tab3 df filtered_df =
     bind_r (emit Tab3 (Header ''Position Analysis'')) (\<lambda>_.
     bind_r (lift_r (position_counts df)) (\<lambda>pc.
     bind_r (emit Tab3 (Plotly_chart (Fig_position pc))) (\<lambda>_.
     bind_r (lift_r (position_stats df)) (\<lambda>pst.
     bind_r (emit Tab3 (Plotly_chart (Fig_position_stats (melt_stats pst)))) (\<lambda>_.
     bind_r (lift_r (px_columns filtered_df
               [NumCol Ppg, NumCol Rpg, StrCol Position, StrCol Name, StrCol Team])) (\<lambda>_.
     emit Tab3 (Plotly_chart (Fig_scatter filtered_df))))))))"

text \<open>Lines 257 to 299.\<close>

definition team_stats :: "DataFrame \<Rightarrow> error + group_stats list" where
  "team_stats df = group_means df Team"

definition top_10_efficiency :: "DataFrame \<Rightarrow> error + DataFrame" where
  "top_10_efficiency df = nlargest 10 Efficiency df"

definition team_counts :: "DataFrame \<Rightarrow> error + (string \<times> nat) list" where
  "team_counts df = bind_e (series_str df Team) (\<lambda>ts. Inr (value_counts ts))"

definition tab4 :: "DataFrame \<Rightarrow> unit render" where
  "tab4 df =
     bind_r (emit Tab4 (Header ''Team Analysis'')) (\<lambda>_.
     bind_r (lift_r (team_stats df)) (\<lambda>ts.
     bind_r (emit Tab4 (Plotly_chart (Fig_heatmap ts))) (\<lambda>_.
     bind_r (lift_r (top_10_efficiency df)) (\<lambda>top.
     bind_r (lift_r (px_columns top [StrCol Name, NumCol Efficiency])) (\<lambda>_.
     bind_r (emit Tab4 (Plotly_chart (Fig_bar top))) (\<lambda>_.
     bind_r (lift_r (team_counts df)) (\<lambda>tc.
     emit Tab4 (Plotly_chart (Fig_team tc)))))))))"

text \<open>Lines 301 to 303.\<close>

definition footer :: "unit render" where
  "footer =
     bind_r (emit Body (Markdown ''---'')) (\<lambda>_.
     emit Body (Markdown ''Data source: NBA Players Statistics 2024-25 Season''))"

text \<open>Lines 26 to 303: the page drawn from the loaded table.\<close>

definition page :: "DataFrame \<Rightarrow> Widgets \<Rightarrow> unit render" where
  "page df w =
     bind_r (sidebar df w) (\<lambda>filtered_df.
     bind_r (tab1 filtered_df w) (\<lambda>_.
     bind_r (tab2 df w) (\<lambda>_.
     bind_r (tab3 df filtered_df) (\<lambda>_.
     bind_r (tab4 df) (\<lambda>_.
     footer)))))"

text \<open>
  One run of the script: the cache before it, the file as it is now and the widgets give
  the cache after it and the page. \<open>script\<close> is the first run of a process.
\<close>

definition rerun ::
  "DataFrame option \<Rightarrow> csv_source \<Rightarrow> Widgets \<Rightarrow> DataFrame option \<times> unit render" where
  "rerun cache src w =
     (case load_data_cached cache src of
        (cache', r) \<Rightarrow> (cache', bind_r (lift_r r) (\<lambda>df. page df w)))"

definition script :: "csv_source \<Rightarrow> Widgets \<Rightarrow> unit render" where
  "script src w = snd (rerun None src w)"


text \<open>The places a run draws in, and the figures of the two analysis tabs.\<close>

definition emits_in :: "place set \<Rightarrow> 'a render \<Rightarrow> bool" where
  "emits_in S m = (\<forall>x\<in>set (fst m). fst x \<in> S)"

text \<open>
  What a page shows of the tables derived in the Position Analysis and Team Analysis
  tabs: the figures drawn there, but for the scatter plot.
\<close>

fun is_analysis_figure :: "place \<times> element \<Rightarrow> bool" where
  "is_analysis_figure (p, Plotly_chart (Fig_scatter t)) = False"
| "is_analysis_figure (p, Plotly_chart fig) = (p = Tab3 \<or> p = Tab4)"
| "is_analysis_figure (p, e) = False"

definition analysis_figures :: "(place \<times> element) list \<Rightarrow> (place \<times> element) list" where
  "analysis_figures out = filter is_analysis_figure out"

section \<open>What the widgets can return\<close>

text \<open>
  A select box returns one of its options, or None when it has none; a multiselect returns
  distinct options. \<open>widgets_of df\<close> holds of the widget states the page drawn from
  \<open>df\<close> can be in: the options are the ones lines 31, 42, 47 and 147 compute.
\<close>

definition selectbox_returns :: "string list \<Rightarrow> string option \<Rightarrow> bool" where
  "selectbox_returns opts v = (if opts = [] then v = None else v \<in> Some ` set opts)"

definition multiselect_returns :: "string list \<Rightarrow> string list \<Rightarrow> bool" where
  "multiselect_returns opts vs = (distinct vs \<and> set vs \<subseteq> set opts)"

definition widgets_of :: "DataFrame \<Rightarrow> Widgets \<Rightarrow> bool" where
  "widgets_of df w =
     (selectbox_returns (rev (sort (unique (map season (rows df))))) (selected_season w) \<and>
      multiselect_returns (unique (map name (rows df))) (selected_players w) \<and>
      selectbox_returns (''All'' # unique (map position (rows df)))
        (Some (selected_position w)) \<and>
      selectbox_returns (unique (map name (rows df))) (selected_player w))"

text \<open>The columns the script reads from the file.\<close>

definition required_columns :: "column list" where
  "required_columns =
     [StrCol Name, StrCol Team, StrCol Position, NumCol Ppg, NumCol Rpg, NumCol Apg,
      NumCol Spg, NumCol Bpg, NumCol Fg_pct, NumCol Efficiency]"

text \<open>
  The required columns in the order in which a run first reads them: name at line 42,
  position at line 47, then ppg, rpg, apg, spg and bpg (lines 80 to 117 when players are
  compared, lines 158 to 170 otherwise), fg_pct at line 172, efficiency at line 174 and
  team at line 181.
\<close>

definition use_order :: "column list" where
  "use_order =
     [StrCol Name, StrCol Position, NumCol Ppg, NumCol Rpg, NumCol Apg, NumCol Spg,
      NumCol Bpg, NumCol Fg_pct, NumCol Efficiency, StrCol Team]"

text \<open>
  The number of elements a run with nobody selected has drawn when it first reads a
  column: five or six in the sidebar, then the ten of the sidebar and the body, the two of
  the first tab and those of the second tab above the metric or the line of the column.
\<close>

fun drawn_before :: "column \<Rightarrow> nat" where
  "drawn_before (StrCol Name) = 5"
| "drawn_before (StrCol Position) = 6"
| "drawn_before (NumCol Ppg) = 14"
| "drawn_before (NumCol Rpg) = 15"
| "drawn_before (NumCol Apg) = 16"
| "drawn_before (NumCol Spg) = 17"
| "drawn_before (NumCol Bpg) = 18"
| "drawn_before (NumCol Fg_pct) = 19"
| "drawn_before (NumCol Efficiency) = 20"
| "drawn_before (StrCol Team) = 22"
| "drawn_before (StrCol Season) = 2"

section \<open>Example inputs\<close>

text \<open>
  A file of two players; its rows carry no season before \<open>load_data\<close> assigns it.
\<close>

definition example_csv :: DataFrame where
  "example_csv =
     \<lparr>columns = required_columns,
      rows =
        [\<lparr>name = ''Jokic'', team = ''DEN'', position = ''C'', ppg = 30, rpg = 12, apg = 10,
          spg = 1, bpg = 1, fg_pct = 58, efficiency = 40, season = []\<rparr>,
         \<lparr>name = ''Doncic'', team = ''LAL'', position = ''PG'', ppg = 20, rpg = 8, apg = 8,
          spg = 2, bpg = 0, fg_pct = 45, efficiency = 30, season = []\<rparr>]\<rparr>"

definition example_df :: DataFrame where
  "example_df = assign_season example_csv ''2024-25''"

text \<open>Both players compared, no position filter.\<close>

definition example_widgets :: Widgets where
  "example_widgets =
     \<lparr>selected_season = Some ''2024-25'', selected_players = [''Jokic'', ''Doncic''],
      selected_position = ''All'', selected_player = Some ''Jokic''\<rparr>"

text \<open>The same with the position box at the point guards.\<close>

definition example_widgets_PG :: Widgets where
  "example_widgets_PG = example_widgets\<lparr>selected_position := ''PG''\<rparr>"

text \<open>Nobody selected for the comparison.\<close>

definition example_widgets_none :: Widgets where
  "example_widgets_none = example_widgets\<lparr>selected_players := []\<rparr>"

text \<open>The centre alone selected, with the position box at the point guards.\<close>

definition example_widgets_centre :: Widgets where
  "example_widgets_centre =
     example_widgets\<lparr>selected_players := [''Jokic''], selected_position := ''PG''\<rparr>"

text \<open>The point guard alone selected, with the position box at the point guards.\<close>

definition example_widgets_guard :: Widgets where
  "example_widgets_guard =
     example_widgets\<lparr>selected_players := [''Doncic''], selected_position := ''PG''\<rparr>"

text \<open>The example file without its efficiency column.\<close>

definition example_csv_short :: DataFrame where
  "example_csv_short =
     example_csv\<lparr>columns :=
       [StrCol Name, StrCol Team, StrCol Position, NumCol Ppg, NumCol Rpg, NumCol Apg,
        NumCol Spg, NumCol Bpg, NumCol Fg_pct]\<rparr>"



text \<open>A file in which one player's position is spelled like the filter's first option.\<close>

definition example_csv_all :: DataFrame where
  "example_csv_all =
     \<lparr>columns = required_columns,
      rows =
        [\<lparr>name = ''Jokic'', team = ''DEN'', position = ''All'', ppg = 30, rpg = 12, apg = 10,
          spg = 1, bpg = 1, fg_pct = 58, efficiency = 40, season = []\<rparr>,
         \<lparr>name = ''Doncic'', team = ''LAL'', position = ''PG'', ppg = 20, rpg = 8, apg = 8,
          spg = 2, bpg = 0, fg_pct = 45, efficiency = 30, season = []\<rparr>]\<rparr>"

text \<open>A file of twenty-five players, named Player A to Player Y.\<close>

definition example_csv_25 :: DataFrame where
  "example_csv_25 =
     \<lparr>columns = required_columns,
      rows =
        map (\<lambda>i. \<lparr>name = ''Player '' @ [char_of (65 + i)], team = ''DEN'', position = ''C'',
                   ppg = real i, rpg = 12, apg = 10, spg = 1, bpg = 1, fg_pct = 58,
                   efficiency = real (i div 2), season = []\<rparr>)
          [0..<25]\<rparr>"

section \<open>Basic facts\<close>

declare digits.simps [simp del]

lemma bind_e_simps [simp]:
  "bind_e (Inl e) f = Inl e"
  "bind_e (Inr x) f = f x"
  by (simp_all add: bind_e_def)

lemma snd_bind_r:
  "snd (bind_r m f) = (case snd m of Inl e \<Rightarrow> Inl e | Inr x \<Rightarrow> snd (f x))"
  by (cases m) (auto simp: bind_r_def split: sum.splits prod.splits)

lemma fst_bind_r:
  "fst (bind_r m f) = (case snd m of Inl e \<Rightarrow> fst m | Inr x \<Rightarrow> fst m @ fst (f x))"
  by (cases m) (auto simp: bind_r_def split: sum.splits prod.splits)

lemma snd_emit [simp]: "snd (emit p e) = Inr ()"
  by (simp add: emit_def)

lemma fst_emit [simp]: "fst (emit p e) = [(p, e)]"
  by (simp add: emit_def)

lemma snd_lift_r [simp]: "snd (lift_r m) = m"
  by (simp add: lift_r_def)

lemma fst_lift_r [simp]: "fst (lift_r m) = []"
  by (simp add: lift_r_def)

lemma zip_map_filter: "map fst (filter snd (zip xs (map P xs))) = filter P xs"
  by (induction xs) auto

lemma select_eq_Inr:
  "StrCol c \<in> set (columns df) \<Longrightarrow>
     select_eq df c v = Inr (df\<lparr>rows := filter (\<lambda>r. Some (str_field c r) = v) (rows df)\<rparr>)"
  using zip_map_filter [of "rows df" "\<lambda>r. Some (str_field c r) = v"]
  by (simp add: select_eq_def series_str_def boolean_index_def comp_def)

lemma select_eq_Inl:
  "StrCol c \<notin> set (columns df) \<Longrightarrow> select_eq df c v = Inl (KeyError (StrCol c))"
  by (simp add: select_eq_def series_str_def)

lemma select_isin_Inr:
  "StrCol c \<in> set (columns df) \<Longrightarrow>
     select_isin df c vs =
       Inr (df\<lparr>rows := filter (\<lambda>r. str_field c r \<in> set vs) (rows df)\<rparr>)"
  using zip_map_filter [of "rows df" "\<lambda>r. str_field c r \<in> set vs"]
  by (simp add: select_isin_def series_str_def boolean_index_def comp_def)

lemma set_unique [simp]: "set (unique xs) = set xs"
  by (simp add: unique_def)

lemma distinct_unique [simp]: "distinct (unique xs)"
  by (simp add: unique_def)

lemma unique_Nil_iff [simp]: "unique xs = [] \<longleftrightarrow> xs = []"
  by (metis set_unique set_empty)

subsection \<open>Load\<close>

lemma load_data_Inr:
  "load_data src = Inr df \<Longrightarrow> \<exists>t. src = Parsed t \<and> df = assign_season t ''2024-25''"
  by (auto simp: load_data_def read_csv_def split: csv_source.splits)

lemma load_data_season_column:
  "load_data src = Inr df \<Longrightarrow> StrCol Season \<in> set (columns df)"
  by (auto dest!: load_data_Inr simp: assign_season_def)

lemma load_data_season_rows:
  "load_data src = Inr df \<Longrightarrow> r \<in> set (rows df) \<Longrightarrow> season r = ''2024-25''"
  by (auto dest!: load_data_Inr simp: assign_season_def)

text \<open>The season box offers the one season of the table, so its filter keeps every row.\<close>

lemma season_filter_all:
  assumes "load_data src = Inr df"
    and "selectbox_returns (rev (sort (unique (map season (rows df))))) v"
  shows "filter (\<lambda>r. Some (season r) = v) (rows df) = rows df"
proof (cases "rows df = []")
  case True
  then show ?thesis by simp
next
  case False
  then have "rev (sort (unique (map season (rows df)))) \<noteq> []"
    by (metis length_0_conv length_rev length_sort unique_Nil_iff map_is_Nil_conv)
  with assms(2) have "v \<in> Some ` set (map season (rows df))"
    by (simp add: selectbox_returns_def)
  then obtain r where "r \<in> set (rows df)" "v = Some (season r)"
    by auto
  with assms(1) have "v = Some ''2024-25''"
    by (simp add: load_data_season_rows)
  with assms(1) show ?thesis
    by (simp add: load_data_season_rows)
qed

subsection \<open>The sidebar\<close>

lemma sidebar_result:
  assumes "StrCol Season \<in> set (columns df)" "StrCol Name \<in> set (columns df)"
    "StrCol Position \<in> set (columns df)"
  shows "snd (sidebar df w) =
     Inr (df\<lparr>rows :=
            filter (\<lambda>r. selected_position w \<noteq> ''All'' \<longrightarrow> position r = selected_position w)
              (filter (\<lambda>r. Some (season r) = selected_season w) (rows df))\<rparr>)"
  using assms
  by (simp add: sidebar_def snd_bind_r series_str_def select_eq_Inr conj_commute)

text \<open>The frame the sidebar hands to the tabs, for the widgets the page can show.\<close>

lemma sidebar_filtered:
  assumes "load_data src = Inr df"
    and "StrCol Name \<in> set (columns df)"
    and "StrCol Position \<in> set (columns df)"
    and "widgets_of df w"
  shows "\<exists>filtered_df. snd (sidebar df w) = Inr filtered_df \<and>
           columns filtered_df = columns df \<and>
           (selected_position w = ''All'' \<longrightarrow>
              rows filtered_df =
                filter (\<lambda>r. Some (season r) = selected_season w) (rows df) \<and>
              rows filtered_df = rows df) \<and>
           (selected_position w \<noteq> ''All'' \<longrightarrow>
              selected_position w \<in> set (map position (rows df)) \<and>
              rows filtered_df =
                filter (\<lambda>r. position r = selected_position w) (rows df))"
proof -
  have all: "filter (\<lambda>r. Some (season r) = selected_season w) (rows df) = rows df"
    using assms(1,4) by (simp add: season_filter_all widgets_of_def)
  have opt: "selected_position w \<noteq> ''All'' \<Longrightarrow>
      selected_position w \<in> set (map position (rows df))"
    using assms(4) by (auto simp: widgets_of_def selectbox_returns_def)
  show ?thesis
    using assms(2,3) load_data_season_column [OF assms(1)] opt
    by (simp add: sidebar_result all cong: filter_cong)
qed

subsection \<open>The example inputs\<close>

lemma example_load: "load_data (Parsed example_csv) = Inr example_df"
  by (simp add: load_data_def read_csv_def example_df_def)

lemma example_df_columns: "columns example_df = required_columns @ [StrCol Season]"
  by (simp add: example_df_def assign_season_def example_csv_def required_columns_def)

lemma example_df_rows:
  "rows example_df =
     [\<lparr>name = ''Jokic'', team = ''DEN'', position = ''C'', ppg = 30, rpg = 12, apg = 10,
       spg = 1, bpg = 1, fg_pct = 58, efficiency = 40, season = ''2024-25''\<rparr>,
      \<lparr>name = ''Doncic'', team = ''LAL'', position = ''PG'', ppg = 20, rpg = 8, apg = 8,
       spg = 2, bpg = 0, fg_pct = 45, efficiency = 30, season = ''2024-25''\<rparr>]"
  by (simp add: example_df_def assign_season_def example_csv_def)

lemma example_all_load:
  "load_data (Parsed example_csv_all) = Inr (assign_season example_csv_all ''2024-25'')"
  by (simp add: load_data_def read_csv_def)

lemma example_all_columns:
  "columns (assign_season example_csv_all ''2024-25'') = required_columns @ [StrCol Season]"
  by (simp add: assign_season_def example_csv_all_def required_columns_def)

lemma example_all_rows:
  "rows (assign_season example_csv_all ''2024-25'') =
     [\<lparr>name = ''Jokic'', team = ''DEN'', position = ''All'', ppg = 30, rpg = 12, apg = 10,
       spg = 1, bpg = 1, fg_pct = 58, efficiency = 40, season = ''2024-25''\<rparr>,
      \<lparr>name = ''Doncic'', team = ''LAL'', position = ''PG'', ppg = 20, rpg = 8, apg = 8,
       spg = 2, bpg = 0, fg_pct = 45, efficiency = 30, season = ''2024-25''\<rparr>]"
  by (simp add: assign_season_def example_csv_all_def)

lemma example_widgets_of: "widgets_of example_df example_widgets"
  by (simp add: widgets_of_def selectbox_returns_def multiselect_returns_def example_df_rows
      example_widgets_def unique_def)

lemma example_widgets_PG_of: "widgets_of example_df example_widgets_PG"
  by (simp add: widgets_of_def selectbox_returns_def multiselect_returns_def example_df_rows
      example_widgets_def example_widgets_PG_def unique_def)

section \<open>The position filter\<close>

text \<open>
  C1 (as amended). For every loaded table that has the name and position columns and every
  state of the widgets the page can be in: when the position box is at a position of the
  data other than the literal \<open>All\<close>, the frame the sidebar hands to the tabs has
  exactly the rows of the table whose position is the selected one, in their order; when
  the box is at \<open>All\<close>, the frame has the rows the season filter kept, which are all
  the rows of the table.
\<close>

theorem filter_by_position:
  assumes "load_data src = Inr df"
    and "StrCol Name \<in> set (columns df)"
    and "StrCol Position \<in> set (columns df)"
    and "widgets_of df w"
  shows "\<exists>filtered_df. snd (sidebar df w) = Inr filtered_df \<and>
           columns filtered_df = columns df \<and>
           (selected_position w = ''All'' \<longrightarrow>
              rows filtered_df =
                filter (\<lambda>r. Some (season r) = selected_season w) (rows df) \<and>
              rows filtered_df = rows df) \<and>
           (selected_position w \<noteq> ''All'' \<longrightarrow>
              selected_position w \<in> set (map position (rows df)) \<and>
              rows filtered_df =
                filter (\<lambda>r. position r = selected_position w) (rows df))"
  using assms by (rule sidebar_filtered)

text \<open>
  The theorem at the example file with the position box at \<open>PG\<close>: the one point guard
  is kept.
\<close>

theorem filter_by_position_witness:
  "load_data (Parsed example_csv) = Inr example_df \<and>
   widgets_of example_df example_widgets_PG \<and>
   (\<exists>filtered_df.
      snd (sidebar example_df example_widgets_PG) = Inr filtered_df \<and>
      map name (rows filtered_df) = [''Doncic''])"
proof -
  have c: "StrCol Name \<in> set (columns example_df)"
    "StrCol Position \<in> set (columns example_df)"
    by (simp_all add: example_df_columns required_columns_def)
  from filter_by_position [OF example_load c example_widgets_PG_of]
  show ?thesis
    using example_load example_widgets_PG_of
    by (auto simp: example_df_rows example_widgets_PG_def example_widgets_def)
qed

text \<open>
  C1 as stated fails when a position of the data is itself spelled \<open>All\<close>: the box
  offers it, line 55 takes it for the absence of a filter, and the other positions stay.
\<close>

theorem filter_by_position_counterexample:
  "load_data (Parsed example_csv_all) = Inr (assign_season example_csv_all ''2024-25'') \<and>
   widgets_of (assign_season example_csv_all ''2024-25'') example_widgets \<and>
   selected_position example_widgets \<in>
     set (map position (rows (assign_season example_csv_all ''2024-25''))) \<and>
   snd (sidebar (assign_season example_csv_all ''2024-25'') example_widgets) =
     Inr (assign_season example_csv_all ''2024-25'') \<and>
   rows (assign_season example_csv_all ''2024-25'') \<noteq>
     filter (\<lambda>r. position r = selected_position example_widgets)
       (rows (assign_season example_csv_all ''2024-25''))"
proof -
  let ?df = "assign_season example_csv_all ''2024-25''"
  have c: "StrCol Season \<in> set (columns ?df)" "StrCol Name \<in> set (columns ?df)"
    "StrCol Position \<in> set (columns ?df)"
    by (simp_all add: example_all_columns required_columns_def)
  have w: "widgets_of ?df example_widgets"
    by (simp add: widgets_of_def selectbox_returns_def multiselect_returns_def
        example_all_rows example_widgets_def unique_def)
  have s: "snd (sidebar ?df example_widgets) = Inr ?df"
    by (simp add: sidebar_result [OF c] example_all_rows) (simp add: example_widgets_def)
  show ?thesis
    using w s by (simp add: example_all_load) (simp add: example_all_rows example_widgets_def)
qed

lemma assign_season_rows: "rows (assign_season t v) = map (\<lambda>r. r\<lparr>season := v\<rparr>) (rows t)"
  by (simp add: assign_season_def)

lemma assign_season_columns:
  "set (columns (assign_season t v)) = insert (StrCol Season) (set (columns t))"
  by (auto simp: assign_season_def)

section \<open>Load\<close>

text \<open>
  C8. For every file that parses to a table with the ten required columns and twenty-five
  rows, \<open>load_data\<close> returns a table of exactly twenty-five rows that has every required
  column and the season column; the rows are those of the file with the season assigned.
\<close>

theorem load_well_formed_25:
  assumes "set required_columns \<subseteq> set (columns t)"
    and "length (rows t) = 25"
  shows "\<exists>df. load_data (Parsed t) = Inr df \<and>
           length (rows df) = 25 \<and>
           set required_columns \<subseteq> set (columns df) \<and>
           StrCol Season \<in> set (columns df) \<and>
           set (columns df) = insert (StrCol Season) (set (columns t)) \<and>
           rows df = map (\<lambda>r. r\<lparr>season := ''2024-25''\<rparr>) (rows t)"
  using assms
  by (auto simp: load_data_def read_csv_def assign_season_rows assign_season_columns)

text \<open>The theorem at the file of twenty-five players.\<close>

theorem load_well_formed_25_witness:
  "set required_columns \<subseteq> set (columns example_csv_25) \<and>
   length (rows example_csv_25) = 25 \<and>
   (\<exists>df. load_data (Parsed example_csv_25) = Inr df \<and> length (rows df) = 25 \<and>
      set required_columns \<subseteq> set (columns df) \<and> StrCol Season \<in> set (columns df))"
proof -
  have c: "set required_columns \<subseteq> set (columns example_csv_25)"
    by (simp add: example_csv_25_def)
  have n: "length (rows example_csv_25) = 25"
    by (simp add: example_csv_25_def)
  from load_well_formed_25 [OF c n] show ?thesis
    using c n by blast
qed

lemma sidebar_Inr_columns:
  assumes "snd (sidebar df w) = Inr f"
  shows "StrCol Season \<in> set (columns df) \<and> StrCol Name \<in> set (columns df) \<and>
         StrCol Position \<in> set (columns df)"
proof -
  have s: "StrCol Season \<in> set (columns df)"
  proof (rule ccontr)
    assume "StrCol Season \<notin> set (columns df)"
    with assms show False
      by (simp add: sidebar_def snd_bind_r series_str_def)
  qed
  have n: "StrCol Name \<in> set (columns df)"
  proof (rule ccontr)
    assume "StrCol Name \<notin> set (columns df)"
    with assms s show False
      by (simp add: sidebar_def snd_bind_r series_str_def select_eq_Inr)
  qed
  have p: "StrCol Position \<in> set (columns df)"
  proof (rule ccontr)
    assume "StrCol Position \<notin> set (columns df)"
    with assms s n show False
      by (simp add: sidebar_def snd_bind_r series_str_def select_eq_Inr)
  qed
  from s n p show ?thesis by simp
qed

lemma sidebar_rows_subset:
  assumes "snd (sidebar df w) = Inr f"
  shows "set (rows f) \<subseteq> set (rows df)"
proof -
  from sidebar_Inr_columns [OF assms] have c: "StrCol Season \<in> set (columns df)"
    "StrCol Name \<in> set (columns df)" "StrCol Position \<in> set (columns df)"
    by simp_all
  from assms show ?thesis
    unfolding sidebar_result [OF c] by auto
qed

lemma select_isin_rows_subset:
  "select_isin df c vs = Inr f \<Longrightarrow> set (rows f) \<subseteq> set (rows df)"
  by (cases "StrCol c \<in> set (columns df)")
     (auto simp: select_isin_Inr, simp add: select_isin_def series_str_def)

lemma select_eq_rows_subset:
  "select_eq df c v = Inr f \<Longrightarrow> set (rows f) \<subseteq> set (rows df)"
  by (cases "StrCol c \<in> set (columns df)") (auto simp: select_eq_Inr select_eq_Inl)

lemma iloc0_in_rows: "iloc0 df = Inr r \<Longrightarrow> r \<in> set (rows df)"
  by (auto simp: iloc0_def split: list.splits)

lemma nlargest_rows_subset:
  assumes "nlargest n c df = Inr f"
  shows "set (rows f) \<subseteq> set (rows df)"
proof (cases "NumCol c \<in> set (columns df)")
  case False
  with assms show ?thesis by (simp add: nlargest_def series_num_def)
next
  case True
  with assms show ?thesis
    by (auto simp: nlargest_def series_num_def Let_def split: if_splits dest!: in_set_takeD)
qed

text \<open>
  C7. After \<open>load_data\<close> every row of the table has season \<open>2024-25\<close>, and so has
  every row of every frame the script derives from it that still has rows of players: the
  filtered frame of the sidebar, the comparison frame, the row of the individual stats and
  the ten most efficient players.
\<close>

theorem season_constant:
  assumes "load_data src = Inr df"
  shows "(\<forall>r\<in>set (rows df). season r = ''2024-25'') \<and>
         (\<forall>filtered_df. snd (sidebar df w) = Inr filtered_df \<longrightarrow>
            (\<forall>r\<in>set (rows filtered_df). season r = ''2024-25'')) \<and>
         (\<forall>filtered_df comparison_df.
            snd (sidebar df w) = Inr filtered_df \<and>
            select_isin filtered_df Name (selected_players w) = Inr comparison_df \<longrightarrow>
            (\<forall>r\<in>set (rows comparison_df). season r = ''2024-25'')) \<and>
         (\<forall>player_stats.
            bind_e (select_eq df Name (selected_player w)) iloc0 = Inr player_stats \<longrightarrow>
            season player_stats = ''2024-25'') \<and>
         (\<forall>top. top_10_efficiency df = Inr top \<longrightarrow>
            (\<forall>r\<in>set (rows top). season r = ''2024-25''))"
proof -
  have a: "\<forall>r\<in>set (rows df). season r = ''2024-25''"
    using assms by (simp add: load_data_season_rows)
  have b: "\<forall>r\<in>set (rows f). season r = ''2024-25''" if "snd (sidebar df w) = Inr f" for f
    using a sidebar_rows_subset [OF that] by blast
  have c: "\<forall>r\<in>set (rows g). season r = ''2024-25''"
    if "snd (sidebar df w) = Inr f" "select_isin f Name (selected_players w) = Inr g" for f g
    using b [OF that(1)] select_isin_rows_subset [OF that(2)] by blast
  have d: "season r = ''2024-25''"
    if "bind_e (select_eq df Name (selected_player w)) iloc0 = Inr r" for r
  proof -
    from that obtain f where f: "select_eq df Name (selected_player w) = Inr f" "iloc0 f = Inr r"
      by (cases "select_eq df Name (selected_player w)") auto
    from iloc0_in_rows [OF f(2)] select_eq_rows_subset [OF f(1)] a show ?thesis
      by blast
  qed
  have e: "\<forall>r\<in>set (rows top). season r = ''2024-25''" if "top_10_efficiency df = Inr top" for top
    using a nlargest_rows_subset [of 10 Efficiency df top] that
    by (auto simp: top_10_efficiency_def)
  from a b c d e show ?thesis by blast
qed

text \<open>The theorem at the example file.\<close>

theorem season_constant_witness:
  "load_data (Parsed example_csv) = Inr example_df \<and>
   list_all (\<lambda>r. season r = ''2024-25'') (rows example_df)"
  using season_constant [OF example_load, of example_widgets]
  by (simp add: example_load list_all_iff)

section \<open>The ten most efficient players\<close>

text \<open>At least m elements are at most the m-th smallest.\<close>

lemma length_filter_le_kth:
  fixes f :: "'a \<Rightarrow> real"
  assumes "0 < m" "m \<le> length xs"
  shows "m \<le> length (filter (\<lambda>x. f x \<le> sort (map f xs) ! (m - 1)) xs)"
proof -
  let ?s = "sort (map f xs)"
  let ?k = "?s ! (m - 1)"
  have len: "length ?s = length xs" by simp
  have "\<forall>y\<in>set (take m ?s). y \<le> ?k"
  proof
    fix y assume "y \<in> set (take m ?s)"
    then obtain i where i: "i < m" "y = ?s ! i"
      using assms(2) by (auto simp: in_set_conv_nth)
    have "?s ! i \<le> ?s ! (m - 1)"
      using i(1) assms by (intro sorted_nth_mono) simp_all
    with i show "y \<le> ?k" by simp
  qed
  then have "filter (\<lambda>y. y \<le> ?k) (take m ?s) = take m ?s"
    by simp
  then have "m = length (filter (\<lambda>y. y \<le> ?k) (take m ?s))"
    using assms(2) by simp
  also have "\<dots> \<le> length (filter (\<lambda>y. y \<le> ?k) (take m ?s @ drop m ?s))"
    unfolding filter_append by simp
  also have "\<dots> = length (filter (\<lambda>y. y \<le> ?k) ?s)"
    by simp
  also have "\<dots> = size (filter_mset (\<lambda>y. y \<le> ?k) (mset ?s))"
    by (metis mset_filter size_mset)
  also have "\<dots> = size (filter_mset (\<lambda>y. y \<le> ?k) (mset (map f xs)))"
    by simp
  also have "\<dots> = length (filter (\<lambda>y. y \<le> ?k) (map f xs))"
    by (metis mset_filter size_mset)
  also have "\<dots> = length (filter (\<lambda>x. f x \<le> ?k) xs)"
    by (simp add: filter_map comp_def)
  finally show ?thesis .
qed

lemma nlargest_Inr:
  assumes "NumCol c \<in> set (columns df)" "0 < n" "n \<le> length (rows df)"
  shows "nlargest n c df =
     Inr (df\<lparr>rows := take n (sort_key (\<lambda>r. - num_field c r)
            (filter (\<lambda>r. - num_field c r \<le> sort (map (\<lambda>r. - num_field c r) (rows df)) ! (n - 1))
               (rows df)))\<rparr>)"
  using assms by (simp add: nlargest_def series_num_def Let_def min_def comp_def)

lemma prefix_filter_take: "prefix (filter P (take n xs)) (filter P xs)"
  by (simp add: filter_mono_prefix take_is_prefix)

lemma sorted_neg_descending:
  fixes f :: "'a \<Rightarrow> real"
  shows "sorted (map (\<lambda>x. - f x) xs) \<Longrightarrow> sorted_wrt (\<lambda>a b. b \<le> a) (map f xs)"
  by (simp add: sorted_wrt_map)

text \<open>
  C3. For every table with the efficiency column and at least ten rows,
  \<open>top_10_efficiency\<close> returns exactly ten rows of the table, in descending order of
  efficiency; rows of equal efficiency are kept from the earliest on and stay in their
  original order (for each efficiency value, the rows returned with it are an initial part
  of the table's rows with it); no row left out is more efficient than a row returned.
\<close>

theorem top_10_efficiency_sorted:
  assumes "NumCol Efficiency \<in> set (columns df)"
    and "10 \<le> length (rows df)"
  shows "\<exists>top. top_10_efficiency df = Inr top \<and>
           columns top = columns df \<and>
           length (rows top) = 10 \<and>
           sorted_wrt (\<lambda>a b. b \<le> a) (map efficiency (rows top)) \<and>
           (\<forall>e. prefix (filter (\<lambda>r. efficiency r = e) (rows top))
                  (filter (\<lambda>r. efficiency r = e) (rows df))) \<and>
           set (rows top) \<subseteq> set (rows df) \<and>
           (\<forall>r\<in>set (rows df). r \<notin> set (rows top) \<longrightarrow>
              (\<forall>t\<in>set (rows top). efficiency r \<le> efficiency t))"
proof -
  let ?key = "\<lambda>r. - efficiency r"
  let ?k = "sort (map ?key (rows df)) ! (10 - 1)"
  let ?ns = "filter (\<lambda>r. ?key r \<le> ?k) (rows df)"
  let ?inds = "sort_key ?key ?ns"
  let ?top = "df\<lparr>rows := take 10 ?inds\<rparr>"
  have eq: "top_10_efficiency df = Inr ?top"
    using nlargest_Inr [OF assms(1), of 10] assms(2) by (simp add: top_10_efficiency_def)
  have len_ns: "10 \<le> length ?ns"
    using length_filter_le_kth [of 10 "rows df" ?key] assms(2) by simp
  then have len: "length (rows ?top) = 10"
    by simp
  have srt: "sorted (map ?key ?inds)"
    by (rule sorted_sort_key)
  have "sorted (map ?key (take 10 ?inds))"
    using srt by (simp add: take_map [symmetric])
  then have desc: "sorted_wrt (\<lambda>a b. b \<le> a) (map efficiency (rows ?top))"
    by (simp add: sorted_neg_descending)
  have stable: "prefix (filter (\<lambda>r. efficiency r = e) (rows ?top))
      (filter (\<lambda>r. efficiency r = e) (rows df))" for e
  proof -
    have "filter (\<lambda>r. efficiency r = e) ?inds = filter (\<lambda>r. ?key r = - e) ?inds"
      by (simp cong: filter_cong)
    also have "\<dots> = filter (\<lambda>r. ?key r = - e) ?ns"
      by (rule sort_key_stable)
    also have "\<dots> = (if - e \<le> ?k then filter (\<lambda>r. efficiency r = e) (rows df) else [])"
      by (auto intro: filter_cong)
    finally have "prefix (filter (\<lambda>r. efficiency r = e) ?inds)
        (filter (\<lambda>r. efficiency r = e) (rows df))"
      by simp
    with prefix_filter_take [of "\<lambda>r. efficiency r = e" 10 ?inds] show ?thesis
      by (simp del: filter_filter)
  qed
  have sub: "set (rows ?top) \<subseteq> set (rows df)"
    using set_take_subset [of 10 ?inds] by auto
  have best: "efficiency r \<le> efficiency t"
    if r: "r \<in> set (rows df)" "r \<notin> set (rows ?top)" and t: "t \<in> set (rows ?top)" for r t
  proof (cases "?key r \<le> ?k")
    case False
    from t have "t \<in> set ?ns"
      using set_take_subset [of 10 ?inds] by auto
    then have "?key t \<le> ?k" by simp
    with False show ?thesis by simp
  next
    case True
    with r(1) have "r \<in> set ?inds" by simp
    then have "r \<in> set (take 10 ?inds) \<union> set (drop 10 ?inds)"
      by (metis append_take_drop_id set_append)
    with r(2) have rd: "r \<in> set (drop 10 ?inds)" by simp
    from t have tt: "t \<in> set (take 10 ?inds)" by simp
    have "sorted (map ?key (take 10 ?inds @ drop 10 ?inds))"
      using srt by simp
    then have "\<forall>a\<in>set (take 10 ?inds). \<forall>b\<in>set (drop 10 ?inds). ?key a \<le> ?key b"
      unfolding map_append sorted_append by auto
    with rd tt have "?key t \<le> ?key r" by blast
    then show ?thesis by simp
  qed
  from eq len desc stable sub best show ?thesis
    by (intro exI [of _ ?top]) (simp only: simp_thms, simp)
qed

text \<open>The theorem at the file of twenty-five players.\<close>

theorem top_10_efficiency_sorted_witness:
  "NumCol Efficiency \<in> set (columns example_csv_25) \<and>
   10 \<le> length (rows example_csv_25) \<and>
   (\<exists>top. top_10_efficiency example_csv_25 = Inr top \<and> length (rows top) = 10 \<and>
      sorted_wrt (\<lambda>a b. b \<le> a) (map efficiency (rows top)))"
proof -
  have c: "NumCol Efficiency \<in> set (columns example_csv_25)"
    by (simp add: example_csv_25_def required_columns_def)
  have n: "10 \<le> length (rows example_csv_25)"
    by (simp add: example_csv_25_def)
  from top_10_efficiency_sorted [OF c n] show ?thesis
    using c n by blast
qed

text \<open>
  In that file the players I and I + 1 share an efficiency for every even I: the ten
  returned are Y alone, then the pairs from W, X down to Q, R, then O without P.
\<close>

lemma top_10_efficiency_example:
  "map_sum id (\<lambda>top. map name (rows top)) (top_10_efficiency example_csv_25) =
     Inr [''Player Y'', ''Player W'', ''Player X'', ''Player U'', ''Player V'',
          ''Player S'', ''Player T'', ''Player Q'', ''Player R'', ''Player O'']"
  by code_simp

section \<open>The comparison metrics\<close>

lemma in_fst_bind_left: "x \<in> set (fst m) \<Longrightarrow> x \<in> set (fst (bind_r m f))"
  by (simp add: fst_bind_r split: sum.splits)

lemma in_fst_bind_right:
  "snd m = Inr v \<Longrightarrow> x \<in> set (fst (f v)) \<Longrightarrow> x \<in> set (fst (bind_r m f))"
  by (simp add: fst_bind_r)

lemma load_script: "load_data src = Inr df \<Longrightarrow> script src w = page df w"
  by (simp add: script_def rerun_def load_data_cached_def bind_r_def lift_r_def)

lemma page_tab1_subset:
  assumes s: "snd (sidebar df w) = Inr f"
  shows "set (fst (tab1 f w)) \<subseteq> set (fst (page df w))"
proof
  fix x assume x: "x \<in> set (fst (tab1 f w))"
  show "x \<in> set (fst (page df w))"
    unfolding page_def
    by (rule in_fst_bind_right [OF s]) (rule in_fst_bind_left [OF x])
qed

lemma filter_name_single:
  "distinct (map name xs) \<Longrightarrow> r \<in> set xs \<Longrightarrow> filter (\<lambda>x. name x = name r) xs = [r]"
proof (induction xs)
  case Nil
  then show ?case by simp
next
  case (Cons a xs)
  show ?case
  proof (cases "a = r")
    case True
    with Cons.prems have "\<forall>x\<in>set xs. name x \<noteq> name r" by (auto simp: image_iff)
    with True show ?thesis by simp
  next
    case False
    with Cons.prems have "r \<in> set xs" "name a \<noteq> name r" by (auto simp: image_iff)
    with Cons show ?thesis by simp
  qed
qed

lemma individual_ppg_row:
  assumes "StrCol Name \<in> set (columns df)" "NumCol Ppg \<in> set (columns df)"
    and "distinct (map name (rows df))" "r \<in> set (rows df)"
  shows "individual_ppg df (name r) = Inr (ppg r)"
  using assms filter_name_single [OF assms(3,4)]
  by (simp add: individual_ppg_def select_eq_Inr iloc0_def row_num_def)

lemma map_e_Inr: "\<forall>x\<in>set xs. f x = Inr (g x) \<Longrightarrow> map_e f xs = Inr (map g xs)"
  by (induction xs) simp_all

lemma rows_of_names:
  "set ps \<subseteq> name ` set xs \<Longrightarrow> \<exists>rs. map name rs = ps \<and> set rs \<subseteq> set xs"
proof (induction ps)
  case Nil
  then show ?case by simp
next
  case (Cons p ps)
  then obtain rs r where "map name rs = ps" "set rs \<subseteq> set xs" "r \<in> set xs" "name r = p"
    by auto
  then have "map name (r # rs) = p # ps \<and> set (r # rs) \<subseteq> set xs" by simp
  then show ?case by (rule exI [of _ "r # rs"])
qed

text \<open>The selected rows and the rows of the selected names are the same rows.\<close>

lemma selected_rows_mset:
  assumes d: "distinct (map name xs)" and ds: "distinct ps"
    and rs: "map name rs = ps" "set rs \<subseteq> set xs"
  shows "mset (filter (\<lambda>r. name r \<in> set ps) xs) = mset rs"
proof -
  have inj: "inj_on name (set xs)" and dx: "distinct xs"
    using d by (simp_all add: distinct_map)
  have drs: "distinct rs"
    using ds rs(1) by (metis distinct_map)
  have "set (filter (\<lambda>r. name r \<in> set ps) xs) = set rs"
  proof
    show "set (filter (\<lambda>r. name r \<in> set ps) xs) \<subseteq> set rs"
    proof
      fix r assume "r \<in> set (filter (\<lambda>r. name r \<in> set ps) xs)"
      then have r: "r \<in> set xs" "name r \<in> set (map name rs)" using rs(1) by simp_all
      then obtain r' where r': "r' \<in> set rs" "name r' = name r" by auto
      with rs(2) r(1) inj have "r' = r" by (auto dest: inj_onD)
      with r' show "r \<in> set rs" by simp
    qed
    show "set rs \<subseteq> set (filter (\<lambda>r. name r \<in> set ps) xs)"
      using rs by auto
  qed
  moreover have "distinct (filter (\<lambda>r. name r \<in> set ps) xs)"
    using dx by simp
  ultimately show ?thesis
    using drs by (metis set_eq_iff_mset_eq_distinct)
qed

lemma sum_list_mset_cong:
  fixes f :: "'a \<Rightarrow> real"
  shows "mset xs = mset ys \<Longrightarrow> sum_list (map f xs) = sum_list (map f ys)"
  by (metis mset_map sum_mset_sum_list)

lemma num_field_fun [simp]:
  "num_field Ppg = ppg" "num_field Rpg = rpg" "num_field Apg = apg" "num_field Spg = spg"
  "num_field Bpg = bpg" "num_field Fg_pct = fg_pct" "num_field Efficiency = efficiency"
  by (rule ext, simp)+

lemma str_field_fun [simp]:
  "str_field Name = name" "str_field Team = team" "str_field Position = position"
  "str_field Season = season"
  by (rule ext, simp)+

lemma tab1_ppg_metric:
  assumes "selected_players w \<noteq> []" "StrCol Name \<in> set (columns f)" "NumCol Ppg \<in> set (columns f)"
  shows "(Tab1, Metric ''Points Per Game''
            (format_fnum
              (mean (map ppg (filter (\<lambda>r. name r \<in> set (selected_players w)) (rows f)))))
            (Some (''Max: '' @ format_fnum
              (series_max
                (map ppg (filter (\<lambda>r. name r \<in> set (selected_players w)) (rows f)))))))
         \<in> set (fst (tab1 f w))"
  using assms
  apply (simp add: tab1_def)
  apply (rule in_fst_bind_right [where v = "()"], simp)
  apply (rule in_fst_bind_right [where v = "()"], simp)
  apply (rule in_fst_bind_right, simp add: select_isin_Inr)
  apply (rule in_fst_bind_left)
  apply (simp add: comparison_metric_def fst_bind_r series_num_def)
  done


text \<open>
  Where the position filter keeps every selected player the metric is the mean of the
  players selected: for a loaded table with distinct names and a non-empty selection, with
  the position box at \<open>All\<close> or at the position of every selected player, the Points
  Per Game metric is the one-decimal text of the sum of their individual values divided by
  their number.
\<close>

lemma comparison_shows_mean:
  assumes load: "load_data src = Inr df"
    and cols: "StrCol Name \<in> set (columns df)" "StrCol Position \<in> set (columns df)"
      "NumCol Ppg \<in> set (columns df)"
    and wid: "widgets_of df w"
    and sel: "selected_players w \<noteq> []"
    and uniq: "distinct (map name (rows df))"
    and keep: "selected_position w = ''All'' \<or>
      (\<forall>r\<in>set (rows df). name r \<in> set (selected_players w) \<longrightarrow>
         position r = selected_position w)"
  shows "\<exists>vals delta.
           map_e (individual_ppg df) (selected_players w) = Inr vals \<and>
           length vals = length (selected_players w) \<and>
           (Tab1, Metric ''Points Per Game''
              (format_1f (sum_list vals / real (length vals))) delta)
             \<in> set (fst (script src w))"
proof -
  let ?ps = "selected_players w"
  from sidebar_filtered [OF load cols(1,2) wid] obtain f where
    f: "snd (sidebar df w) = Inr f" "columns f = columns df"
      "selected_position w = ''All'' \<longrightarrow> rows f = rows df"
      "selected_position w \<noteq> ''All'' \<longrightarrow>
         rows f = filter (\<lambda>r. position r = selected_position w) (rows df)"
    by blast
  let ?cs = "filter (\<lambda>r. name r \<in> set ?ps) (rows df)"
  have cs: "filter (\<lambda>r. name r \<in> set ?ps) (rows f) = ?cs"
  proof (cases "selected_position w = ''All''")
    case True
    with f(3) show ?thesis by simp
  next
    case False
    with keep have "\<forall>r\<in>set (rows df). name r \<in> set ?ps \<longrightarrow> position r = selected_position w"
      by simp
    with False f(4) show ?thesis
      by (auto intro: filter_cong)
  qed
  have ds: "distinct ?ps" and sub: "set ?ps \<subseteq> name ` set (rows df)"
    using wid by (simp_all add: widgets_of_def multiselect_returns_def)
  from rows_of_names [OF sub] obtain rs where rs: "map name rs = ?ps" "set rs \<subseteq> set (rows df)"
    by blast
  have ms: "mset ?cs = mset rs"
    by (rule selected_rows_mset [OF uniq ds rs])
  have "\<forall>r\<in>set rs. individual_ppg df (name r) = Inr (ppg r)"
    using rs(2) individual_ppg_row [OF cols(1,3) uniq] by blast
  then have "map_e (\<lambda>r. individual_ppg df (name r)) rs = Inr (map ppg rs)"
    by (rule map_e_Inr)
  moreover have "map_e (individual_ppg df) (map name rs) = map_e (\<lambda>r. individual_ppg df (name r)) rs"
    by (induction rs) simp_all
  ultimately have vals: "map_e (individual_ppg df) ?ps = Inr (map ppg rs)"
    using rs(1) by simp
  have len: "length (map ppg rs) = length ?ps"
    using rs(1) by (metis length_map)
  have lcs: "length ?cs = length rs"
    using ms by (metis size_mset)
  have ne: "?cs \<noteq> []"
    using lcs len sel by auto
  have "mean (map ppg ?cs) = Fin (sum_list (map ppg rs) / real (length (map ppg rs)))"
    using ne lcs sum_list_mset_cong [OF ms, of ppg] by (simp add: mean_def)
  with tab1_ppg_metric [OF sel, of f] f(2) cols cs
  have "(Tab1, Metric ''Points Per Game''
           (format_1f (sum_list (map ppg rs) / real (length (map ppg rs))))
           (Some (''Max: '' @ format_fnum (series_max (map ppg ?cs)))))
         \<in> set (fst (tab1 f w))"
    by simp
  with page_tab1_subset [OF f(1)] load_script [OF load, of w]
  have "(Tab1, Metric ''Points Per Game''
           (format_1f (sum_list (map ppg rs) / real (length (map ppg rs))))
           (Some (''Max: '' @ format_fnum (series_max (map ppg ?cs)))))
         \<in> set (fst (script src w))"
    by auto
  with vals len show ?thesis by blast
qed

lemma example_individual_ppg:
  "map_e (individual_ppg example_df) [''Jokic'', ''Doncic''] = Inr [30, 20]"
  by (simp add: individual_ppg_def select_eq_Inr example_df_columns example_df_rows
      required_columns_def iloc0_def row_num_def)

text \<open>
  C2. The Points Per Game metric of a non-empty selection is to show the arithmetic mean of
  the ppg of the players selected, 25.0 for 30.0 and 20.0. The script does so with no
  position filter. With the position box at the point guards it does not: the tab still
  writes that it compares both players, but line 73 takes the comparison from the filtered
  frame, the metric shows the 20.0 of the one point guard, and the radar loop of line 115,
  which runs over every selected player, then ends the run with IndexError at line 116.
\<close>

theorem comparison_mean_ppg_dropped_player:
  "load_data (Parsed example_csv) = Inr example_df \<and>
   widgets_of example_df example_widgets \<and>
   widgets_of example_df example_widgets_PG \<and>
   selected_players example_widgets = [''Jokic'', ''Doncic''] \<and>
   selected_players example_widgets_PG = [''Jokic'', ''Doncic''] \<and>
   map_e (individual_ppg example_df) [''Jokic'', ''Doncic''] = Inr [30, 20] \<and>
   format_1f (sum_list [30, 20] / real (length [30 :: real, 20])) = ''25.0'' \<and>
   map snd (filter (\<lambda>x. fst x = Tab1)
     (fst (script (Parsed example_csv) example_widgets))) =
     [Header ''Player Comparison'',
      Write ''Comparing: Jokic, Doncic'',
      Metric ''Points Per Game'' ''25.0'' (Some ''Max: 30.0''),
      Metric ''Rebounds Per Game'' ''10.0'' (Some ''Max: 12.0''),
      Metric ''Assists Per Game'' ''9.0'' (Some ''Max: 10.0''),
      Plotly_chart (Fig_comparison
        [(''Jokic'', ''ppg'', 30), (''Doncic'', ''ppg'', 20), (''Jokic'', ''rpg'', 12),
         (''Doncic'', ''rpg'', 8), (''Jokic'', ''apg'', 10), (''Doncic'', ''apg'', 8)]),
      Plotly_chart (Fig_radar
        [(''Jokic'', [30, 12, 10, 1, 1]), (''Doncic'', [20, 8, 8, 2, 0])] 30)] \<and>
   map snd (filter (\<lambda>x. fst x = Tab1)
     (fst (script (Parsed example_csv) example_widgets_PG))) =
     [Header ''Player Comparison'',
      Write ''Comparing: Jokic, Doncic'',
      Metric ''Points Per Game'' ''20.0'' (Some ''Max: 20.0''),
      Metric ''Rebounds Per Game'' ''8.0'' (Some ''Max: 8.0''),
      Metric ''Assists Per Game'' ''8.0'' (Some ''Max: 8.0''),
      Plotly_chart (Fig_comparison
        [(''Doncic'', ''ppg'', 20), (''Doncic'', ''rpg'', 8), (''Doncic'', ''apg'', 8)])] \<and>
   snd (script (Parsed example_csv) example_widgets_PG) = Inl IndexError"
  by (intro conjI; code_simp)

section \<open>The page and its parts\<close>

lemma emits_in_bind:
  "emits_in S m \<Longrightarrow> (\<And>v. emits_in S (f v)) \<Longrightarrow> emits_in S (bind_r m f)"
  by (cases "snd m") (auto simp: emits_in_def fst_bind_r)

lemma emits_in_emit: "p \<in> S \<Longrightarrow> emits_in S (emit p e)"
  by (simp add: emits_in_def)

lemma emits_in_lift: "emits_in S (lift_r m)"
  by (simp add: emits_in_def)

lemma emits_in_if: "emits_in S a \<Longrightarrow> emits_in S b \<Longrightarrow> emits_in S (if c then a else b)"
  by simp

lemmas emits_in_intros = emits_in_bind emits_in_emit emits_in_lift emits_in_if

lemma sidebar_places: "emits_in {Sidebar, Body} (sidebar df w)"
  unfolding sidebar_def by (intro emits_in_intros) simp_all

lemma tab1_places: "emits_in {Tab1} (tab1 f w)"
  unfolding tab1_def comparison_metric_def by (intro emits_in_intros) simp_all

lemma tab2_places: "emits_in {Tab2} (tab2 df w)"
  unfolding tab2_def player_metric_def by (intro emits_in_intros) simp_all

lemma tab3_places: "emits_in {Tab3} (tab3 df f)"
  unfolding tab3_def by (intro emits_in_intros) simp_all

lemma tab4_places: "emits_in {Tab4} (tab4 df)"
  unfolding tab4_def by (intro emits_in_intros) simp_all

lemma footer_places: "emits_in {Body} footer"
  unfolding footer_def by (intro emits_in_intros) simp_all



text \<open>A run that completes drew every part of the page.\<close>

lemma snd_bind_r_Inr:
  "snd (bind_r m f) = Inr y \<longleftrightarrow> (\<exists>x. snd m = Inr x \<and> snd (f x) = Inr y)"
  by (cases "snd m") (simp_all add: snd_bind_r)

lemma page_complete:
  assumes "snd (page df w) = Inr ()"
  shows "\<exists>f. snd (sidebar df w) = Inr f \<and> snd (tab1 f w) = Inr () \<and>
           snd (tab2 df w) = Inr () \<and> snd (tab3 df f) = Inr () \<and> snd (tab4 df) = Inr () \<and>
           fst (page df w) =
             fst (sidebar df w) @ fst (tab1 f w) @ fst (tab2 df w) @ fst (tab3 df f) @
             fst (tab4 df) @ fst footer"
  using assms by (auto simp: page_def snd_bind_r_Inr fst_bind_r)


lemma tab1_empty_selection:
  "selected_players w = [] \<Longrightarrow>
     tab1 f w =
       ([(Tab1, Header ''Player Comparison''),
         (Tab1, Info ''Please select players to compare from the sidebar.'')], Inr ())"
  by (simp add: tab1_def bind_r_def emit_def)








section \<open>A selection the position filter empties\<close>

lemma bind_r_emit: "bind_r (emit p e) f = ((p, e) # fst (f ()), snd (f ()))"
  by (simp add: bind_r_def emit_def split: prod.splits)

lemma bind_r_lift_Inr: "bind_r (lift_r (Inr x)) f = f x"
  by (simp add: bind_r_def lift_r_def split: prod.splits)

lemma bind_r_lift_Inl: "bind_r (lift_r (Inl e)) f = ([], Inl e)"
  by (simp add: bind_r_def lift_r_def)

lemma bind_r_Pair_Inr: "bind_r (out, Inr x) f = (out @ fst (f x), snd (f x))"
  by (simp add: bind_r_def split: prod.splits)

lemma bind_r_Pair_Inl: "bind_r (out, Inl e) f = (out, Inl e)"
  by (simp add: bind_r_def)

lemmas bind_r_simps =
  bind_r_emit bind_r_lift_Inr bind_r_lift_Inl bind_r_Pair_Inr bind_r_Pair_Inl

lemma tab1_empty_comparison:
  assumes sel: "selected_players w \<noteq> []"
    and cols: "StrCol Name \<in> set (columns f)" "NumCol Ppg \<in> set (columns f)"
      "NumCol Rpg \<in> set (columns f)" "NumCol Apg \<in> set (columns f)"
    and empty: "filter (\<lambda>r. name r \<in> set (selected_players w)) (rows f) = []"
  shows "tab1 f w =
     ([(Tab1, Header ''Player Comparison''),
       (Tab1, Write (''Comparing: '' @ join '', '' (selected_players w))),
       (Tab1, Metric ''Points Per Game'' ''nan'' (Some ''Max: nan'')),
       (Tab1, Metric ''Rebounds Per Game'' ''nan'' (Some ''Max: nan'')),
       (Tab1, Metric ''Assists Per Game'' ''nan'' (Some ''Max: nan'')),
       (Tab1, Plotly_chart (Fig_comparison []))],
      Inl IndexError)"
proof -
  obtain p ps where p: "selected_players w = p # ps"
    using sel by (cases "selected_players w") auto
  let ?c = "f\<lparr>rows := []\<rparr>"
  have c: "select_isin f Name (selected_players w) = Inr ?c"
    using cols(1) empty by (simp add: select_isin_Inr)
  have m: "comparison_metric ?c l k = ([(Tab1, Metric l ''nan'' (Some ''Max: nan''))], Inr ())"
    if "NumCol k \<in> set (columns f)" for l k
    using that
    by (simp add: comparison_metric_def series_num_def bind_r_simps emit_def mean_def
        series_max_def)
  have ml: "melt_players ?c = Inr []"
    using cols by (simp add: melt_players_def series_str_def series_num_def)
  have "radar_trace ?c p = Inl IndexError"
    using cols(1) by (simp add: radar_trace_def select_eq_Inr iloc0_def)
  then have r: "map_e (radar_trace ?c) (selected_players w) = Inl IndexError"
    by (simp add: p)
  show ?thesis
    using sel cols
    by (simp add: tab1_def c m ml r bind_r_simps)
qed

text \<open>
  C5. There are non-empty selections for which the comparison does not render: for every
  loaded table with the columns the tab reads, whenever the selection is not empty and the
  position box is at a position that differs from the position of every selected player,
  the comparison frame is empty, the radar loop takes the first row of an empty frame for
  its first player and the run ends with IndexError, the bar chart of the comparison being
  the last element drawn.
\<close>

theorem radar_index_error:
  assumes load: "load_data src = Inr df"
    and cols: "StrCol Name \<in> set (columns df)" "StrCol Position \<in> set (columns df)"
      "NumCol Ppg \<in> set (columns df)" "NumCol Rpg \<in> set (columns df)"
      "NumCol Apg \<in> set (columns df)"
    and wid: "widgets_of df w"
    and sel: "selected_players w \<noteq> []"
    and pos: "selected_position w \<noteq> ''All''"
    and differs: "\<forall>r\<in>set (rows df). name r \<in> set (selected_players w) \<longrightarrow>
      position r \<noteq> selected_position w"
  shows "snd (script src w) = Inl IndexError \<and>
         last (fst (script src w)) = (Tab1, Plotly_chart (Fig_comparison [])) \<and>
         (\<exists>filtered_df comparison_df.
            snd (sidebar df w) = Inr filtered_df \<and>
            select_isin filtered_df Name (selected_players w) = Inr comparison_df \<and>
            rows comparison_df = [] \<and>
            radar_trace comparison_df (hd (selected_players w)) = Inl IndexError \<and>
            snd (tab1 filtered_df w) = Inl IndexError)"
proof -
  from sidebar_filtered [OF load cols(1,2) wid] pos obtain f where
    f: "snd (sidebar df w) = Inr f" "columns f = columns df"
      "rows f = filter (\<lambda>r. position r = selected_position w) (rows df)"
    by blast
  have empty: "filter (\<lambda>r. name r \<in> set (selected_players w)) (rows f) = []"
    using differs by (auto simp: f(3) filter_empty_conv)
  have fc: "StrCol Name \<in> set (columns f)" "NumCol Ppg \<in> set (columns f)"
      "NumCol Rpg \<in> set (columns f)" "NumCol Apg \<in> set (columns f)"
    using cols by (simp_all add: f(2))
  note t1 = tab1_empty_comparison [OF sel fc empty]
  have c: "select_isin f Name (selected_players w) = Inr (f\<lparr>rows := []\<rparr>)"
    using fc(1) empty by (simp add: select_isin_Inr)
  have r: "radar_trace (f\<lparr>rows := []\<rparr>) (hd (selected_players w)) = Inl IndexError"
    using fc(1) by (simp add: radar_trace_def select_eq_Inr iloc0_def)
  have s: "snd (page df w) = Inl IndexError"
    using f(1) t1 by (simp add: page_def snd_bind_r)
  have "fst (page df w) = fst (sidebar df w) @ fst (tab1 f w)"
    using f(1) t1 by (simp add: page_def fst_bind_r)
  then have l: "last (fst (page df w)) = (Tab1, Plotly_chart (Fig_comparison []))"
    by (simp add: t1)
  from s l f(1) c r t1 show ?thesis
    unfolding load_script [OF load]
    by (intro conjI exI [of _ f] exI [of _ "f\<lparr>rows := []\<rparr>"]) simp_all
qed

lemma example_widgets_centre_of: "widgets_of example_df example_widgets_centre"
  by (simp add: widgets_of_def selectbox_returns_def multiselect_returns_def example_df_rows
      example_widgets_def example_widgets_centre_def unique_def)

text \<open>
  Such a selection exists: in the example file, the centre compared while the position box
  is at the point guards.
\<close>

theorem radar_index_error_witness:
  "load_data (Parsed example_csv) = Inr example_df \<and>
   widgets_of example_df example_widgets_centre \<and>
   selected_players example_widgets_centre = [''Jokic''] \<and>
   selected_position example_widgets_centre = ''PG'' \<and>
   map position (filter (\<lambda>r. name r \<in> set (selected_players example_widgets_centre))
     (rows example_df)) = [''C''] \<and>
   snd (script (Parsed example_csv) example_widgets_centre) = Inl IndexError \<and>
   last (fst (script (Parsed example_csv) example_widgets_centre)) =
     (Tab1, Plotly_chart (Fig_comparison []))"
proof -
  have c: "StrCol Name \<in> set (columns example_df)" "StrCol Position \<in> set (columns example_df)"
    "NumCol Ppg \<in> set (columns example_df)" "NumCol Rpg \<in> set (columns example_df)"
    "NumCol Apg \<in> set (columns example_df)"
    by (simp_all add: example_df_columns required_columns_def)
  have s: "selected_players example_widgets_centre \<noteq> []"
    and p: "selected_position example_widgets_centre \<noteq> ''All''"
    and v: "selected_players example_widgets_centre = [''Jokic'']"
      "selected_position example_widgets_centre = ''PG''"
    by (simp_all add: example_widgets_centre_def example_widgets_def)
  have d: "\<forall>r\<in>set (rows example_df). name r \<in> set (selected_players example_widgets_centre) \<longrightarrow>
      position r \<noteq> selected_position example_widgets_centre"
    by (simp add: example_df_rows v)
  have m: "map position (filter (\<lambda>r. name r \<in> set (selected_players example_widgets_centre))
     (rows example_df)) = [''C'']"
    by (simp add: example_df_rows v)
  from radar_index_error [OF example_load c example_widgets_centre_of s p d] show ?thesis
    using example_load example_widgets_centre_of v m by simp
qed

section \<open>What a run that completes has read\<close>

lemma sidebar_draws: "fst (sidebar df w) \<noteq> []"
  by (simp add: sidebar_def bind_r_emit)

lemma page_draws: "fst (page df w) \<noteq> []"
  using sidebar_draws [of df w] by (cases "snd (sidebar df w)") (simp_all add: page_def fst_bind_r)

lemma row_num_Inr: "row_num df r c = Inr v \<longleftrightarrow> NumCol c \<in> set (columns df) \<and> v = num_field c r"
  by (auto simp: row_num_def)

lemma row_str_Inr: "row_str df r c = Inr v \<longleftrightarrow> StrCol c \<in> set (columns df) \<and> v = str_field c r"
  by (auto simp: row_str_def)

lemma tab2_Inr_columns:
  assumes "snd (tab2 df w) = Inr ()"
  shows "{StrCol Team, NumCol Ppg, NumCol Rpg, NumCol Apg, NumCol Spg, NumCol Bpg,
          NumCol Fg_pct, NumCol Efficiency} \<subseteq> set (columns df)"
  using assms
  by (auto simp: tab2_def player_metric_def snd_bind_r_Inr row_num_Inr row_str_Inr)

lemma page_Inr_columns:
  assumes "snd (page df w) = Inr ()"
  shows "set required_columns \<subseteq> set (columns df)"
proof -
  from page_complete [OF assms] obtain f where
    "snd (sidebar df w) = Inr f" "snd (tab2 df w) = Inr ()"
    by blast
  with sidebar_Inr_columns [of df w f] tab2_Inr_columns [of df w] show ?thesis
    by (simp add: required_columns_def)
qed

section \<open>The analysis tabs and the widgets\<close>

lemma analysis_figures_append:
  "analysis_figures (xs @ ys) = analysis_figures xs @ analysis_figures ys"
  by (simp add: analysis_figures_def)

lemma is_analysis_figure_place: "is_analysis_figure x \<Longrightarrow> fst x = Tab3 \<or> fst x = Tab4"
  by (cases x rule: is_analysis_figure.cases) simp_all

lemma analysis_figures_elsewhere:
  assumes "emits_in S m" "Tab3 \<notin> S" "Tab4 \<notin> S"
  shows "analysis_figures (fst m) = []"
  using assms by (auto simp: emits_in_def analysis_figures_def filter_empty_conv
      dest!: is_analysis_figure_place)



lemma tab3_figures:
  "analysis_figures (fst (tab3 df f)) =
     (case position_counts df of
        Inl e \<Rightarrow> []
      | Inr pc \<Rightarrow>
          (Tab3, Plotly_chart (Fig_position pc)) #
          (case position_stats df of
             Inl e \<Rightarrow> []
           | Inr pst \<Rightarrow> [(Tab3, Plotly_chart (Fig_position_stats (melt_stats pst)))]))"
  by (simp add: tab3_def analysis_figures_def fst_bind_r split: sum.splits)

lemma tab4_figures:
  "analysis_figures (fst (tab4 df)) =
     (case team_stats df of
        Inl e \<Rightarrow> []
      | Inr ts \<Rightarrow>
          (Tab4, Plotly_chart (Fig_heatmap ts)) #
          (case top_10_efficiency df of
             Inl e \<Rightarrow> []
           | Inr t10 \<Rightarrow>
               (case px_columns t10 [StrCol Name, NumCol Efficiency] of
                  Inl e \<Rightarrow> []
                | Inr u \<Rightarrow>
                    (Tab4, Plotly_chart (Fig_bar t10)) #
                    (case team_counts df of
                       Inl e \<Rightarrow> []
                     | Inr tc \<Rightarrow> [(Tab4, Plotly_chart (Fig_team tc))]))))"
  by (simp add: tab4_def analysis_figures_def fst_bind_r split: sum.splits)

lemma page_figures:
  "analysis_figures (fst (page df w)) =
     (case snd (sidebar df w) of
        Inl e \<Rightarrow> []
      | Inr f \<Rightarrow>
          (case snd (tab1 f w) of
             Inl e \<Rightarrow> []
           | Inr u \<Rightarrow>
               (case snd (tab2 df w) of
                  Inl e \<Rightarrow> []
                | Inr u \<Rightarrow>
                    analysis_figures (fst (tab3 df f)) @
                    (case snd (tab3 df f) of
                       Inl e \<Rightarrow> []
                     | Inr u \<Rightarrow> analysis_figures (fst (tab4 df))))))"
  by (simp add: page_def fst_bind_r analysis_figures_append
      analysis_figures_elsewhere [OF sidebar_places]
      analysis_figures_elsewhere [OF tab1_places] analysis_figures_elsewhere [OF tab2_places]
      analysis_figures_elsewhere [OF footer_places] split: sum.splits)

lemma page_tab3_elements:
  assumes "(Tab3, e) \<in> set (fst (page df w))"
  shows "\<exists>f. snd (sidebar df w) = Inr f \<and> (Tab3, e) \<in> set (fst (tab3 df f))"
proof -
  have out: "\<And>m S. emits_in S m \<Longrightarrow> Tab3 \<notin> S \<Longrightarrow> (Tab3, e) \<notin> set (fst m)"
    by (auto simp: emits_in_def)
  note no = out [OF sidebar_places] out [OF tab1_places] out [OF tab2_places]
    out [OF tab4_places] out [OF footer_places]
  from assms show ?thesis
    by (auto simp: page_def fst_bind_r no split: sum.splits)
qed

lemma page_tab4_elements:
  assumes "(Tab4, e) \<in> set (fst (page df w))"
  shows "(Tab4, e) \<in> set (fst (tab4 df))"
proof -
  have out: "\<And>m S. emits_in S m \<Longrightarrow> Tab4 \<notin> S \<Longrightarrow> (Tab4, e) \<notin> set (fst m)"
    by (auto simp: emits_in_def)
  note no = out [OF sidebar_places] out [OF tab1_places] out [OF tab2_places]
    out [OF tab3_places] out [OF footer_places]
  from assms show ?thesis
    by (auto simp: page_def fst_bind_r no split: sum.splits)
qed

lemma tab3_position:
  "(Tab3, Plotly_chart (Fig_position pc)) \<in> set (fst (tab3 df f)) \<Longrightarrow>
     position_counts df = Inr pc"
  by (auto simp: tab3_def fst_bind_r split: sum.splits)

lemma tab3_position_stats:
  "(Tab3, Plotly_chart (Fig_position_stats m)) \<in> set (fst (tab3 df f)) \<Longrightarrow>
     \<exists>pst. position_stats df = Inr pst \<and> m = melt_stats pst"
  by (auto simp: tab3_def fst_bind_r split: sum.splits)

lemma tab3_scatter:
  "(Tab3, Plotly_chart (Fig_scatter g)) \<in> set (fst (tab3 df f)) \<Longrightarrow> g = f"
  by (auto simp: tab3_def fst_bind_r split: sum.splits)

lemma tab4_heatmap:
  "(Tab4, Plotly_chart (Fig_heatmap ts)) \<in> set (fst (tab4 df)) \<Longrightarrow> team_stats df = Inr ts"
  by (auto simp: tab4_def fst_bind_r split: sum.splits)

lemma page_figures_prefix:
  "prefix (analysis_figures (fst (page df w)))
     (analysis_figures (fst (tab3 df df)) @ analysis_figures (fst (tab4 df)))"
  by (simp add: page_figures tab3_figures [of df df] tab3_figures split: sum.splits)

lemma page_figures_complete:
  assumes "snd (page df w) = Inr ()"
  shows "analysis_figures (fst (page df w)) =
     analysis_figures (fst (tab3 df df)) @ analysis_figures (fst (tab4 df))"
proof -
  from page_complete [OF assms] obtain f where
    "snd (sidebar df w) = Inr f" "snd (tab1 f w) = Inr ()" "snd (tab2 df w) = Inr ()"
    "snd (tab3 df f) = Inr ()"
    by blast
  then show ?thesis
    by (simp add: page_figures tab3_figures [of df df] tab3_figures)
qed

text \<open>
  C10. The position distribution, the per-position averages and the per-team averages
  that a page shows are the position counts, the per-position means and the per-team means
  of the loaded table, whatever the season, the selected players and the position box are:
  in any two states of the widgets the tables are equal. The Position Analysis tab yields
  the same figures for every filtered frame it is given; the analysis figures of a run are
  an initial segment of one list that the loaded table alone determines, and the whole
  list when the run completes. The scatter plot alone is drawn from the filtered frame.
\<close>

theorem analysis_independent_of_widgets:
  assumes load: "load_data src = Inr df"
  shows "(\<forall>w pc. (Tab3, Plotly_chart (Fig_position pc)) \<in> set (fst (script src w)) \<longrightarrow>
            position_counts df = Inr pc) \<and>
         (\<forall>w m. (Tab3, Plotly_chart (Fig_position_stats m)) \<in> set (fst (script src w)) \<longrightarrow>
            (\<exists>pst. position_stats df = Inr pst \<and> m = melt_stats pst)) \<and>
         (\<forall>w ts. (Tab4, Plotly_chart (Fig_heatmap ts)) \<in> set (fst (script src w)) \<longrightarrow>
            team_stats df = Inr ts) \<and>
         (\<forall>f1 f2. analysis_figures (fst (tab3 df f1)) = analysis_figures (fst (tab3 df f2))) \<and>
         (\<forall>w. prefix (analysis_figures (fst (script src w)))
                 (analysis_figures (fst (tab3 df df)) @ analysis_figures (fst (tab4 df)))) \<and>
         (\<forall>w. snd (script src w) = Inr () \<longrightarrow>
            analysis_figures (fst (script src w)) =
              analysis_figures (fst (tab3 df df)) @ analysis_figures (fst (tab4 df))) \<and>
         (\<forall>w g. (Tab3, Plotly_chart (Fig_scatter g)) \<in> set (fst (script src w)) \<longrightarrow>
            snd (sidebar df w) = Inr g)"
proof -
  have s: "\<And>w. script src w = page df w"
    by (rule load_script [OF load])
  have 1: "\<forall>w pc. (Tab3, Plotly_chart (Fig_position pc)) \<in> set (fst (script src w)) \<longrightarrow>
      position_counts df = Inr pc"
    unfolding s by (blast dest: page_tab3_elements tab3_position)
  have 2: "\<forall>w m. (Tab3, Plotly_chart (Fig_position_stats m)) \<in> set (fst (script src w)) \<longrightarrow>
      (\<exists>pst. position_stats df = Inr pst \<and> m = melt_stats pst)"
    unfolding s by (blast dest: page_tab3_elements tab3_position_stats)
  have 3: "\<forall>w ts. (Tab4, Plotly_chart (Fig_heatmap ts)) \<in> set (fst (script src w)) \<longrightarrow>
      team_stats df = Inr ts"
    unfolding s by (blast dest: page_tab4_elements tab4_heatmap)
  have 4: "\<forall>f1 f2. analysis_figures (fst (tab3 df f1)) = analysis_figures (fst (tab3 df f2))"
    by (simp add: tab3_figures)
  have 5: "\<forall>w. prefix (analysis_figures (fst (script src w)))
      (analysis_figures (fst (tab3 df df)) @ analysis_figures (fst (tab4 df)))"
    unfolding s by (simp add: page_figures_prefix)
  have 6: "\<forall>w. snd (script src w) = Inr () \<longrightarrow>
      analysis_figures (fst (script src w)) =
        analysis_figures (fst (tab3 df df)) @ analysis_figures (fst (tab4 df))"
    unfolding s by (simp add: page_figures_complete)
  have 7: "\<forall>w g. (Tab3, Plotly_chart (Fig_scatter g)) \<in> set (fst (script src w)) \<longrightarrow>
      snd (sidebar df w) = Inr g"
    unfolding s using page_tab3_elements tab3_scatter by blast
  from 1 2 3 4 5 6 7 show ?thesis
    by (intro conjI)
qed


text \<open>
  The theorem at the example file: with both players compared and no position filter, and
  with the point guard compared and the position box at the point guards, the runs
  complete and show the same five figures, over different filtered frames; with the centre
  compared and the box at the point guards the run stops in the first tab, before any of
  them is computed.
\<close>

theorem analysis_independent_of_widgets_witness:
  "load_data (Parsed example_csv) = Inr example_df \<and>
   snd (script (Parsed example_csv) example_widgets) = Inr () \<and>
   snd (script (Parsed example_csv) example_widgets_guard) = Inr () \<and>
   snd (script (Parsed example_csv) example_widgets_centre) = Inl IndexError \<and>
   position_counts example_df = Inr [(''C'', 1), (''PG'', 1)] \<and>
   position_stats example_df =
     Inr [(''C'', Fin 30, Fin 12, Fin 10, Fin 40), (''PG'', Fin 20, Fin 8, Fin 8, Fin 30)] \<and>
   team_stats example_df =
     Inr [(''DEN'', Fin 30, Fin 12, Fin 10, Fin 40), (''LAL'', Fin 20, Fin 8, Fin 8, Fin 30)] \<and>
   length (analysis_figures (fst (script (Parsed example_csv) example_widgets))) = 5 \<and>
   analysis_figures (fst (script (Parsed example_csv) example_widgets_guard)) =
     analysis_figures (fst (script (Parsed example_csv) example_widgets)) \<and>
   analysis_figures (fst (script (Parsed example_csv) example_widgets_centre)) = [] \<and>
   snd (sidebar example_df example_widgets) = Inr example_df \<and>
   snd (sidebar example_df example_widgets_guard) =
     Inr (example_df\<lparr>rows := [rows example_df ! 1]\<rparr>)"
proof -
  note t = analysis_independent_of_widgets [OF example_load]
  have c1: "snd (script (Parsed example_csv) example_widgets) = Inr ()"
    by code_simp
  have c2: "snd (script (Parsed example_csv) example_widgets_guard) = Inr ()"
    by code_simp
  have c3: "snd (script (Parsed example_csv) example_widgets_centre) = Inl IndexError"
    by code_simp
  have m1: "(Tab3, Plotly_chart (Fig_position [(''C'', 1), (''PG'', 1)]))
      \<in> set (fst (script (Parsed example_csv) example_widgets_guard))"
    by code_simp
  have m3: "(Tab4, Plotly_chart (Fig_heatmap
        [(''DEN'', Fin 30, Fin 12, Fin 10, Fin 40), (''LAL'', Fin 20, Fin 8, Fin 8, Fin 30)]))
      \<in> set (fst (script (Parsed example_csv) example_widgets_guard))"
    by code_simp
  have m4: "(Tab3, Plotly_chart (Fig_scatter example_df))
      \<in> set (fst (script (Parsed example_csv) example_widgets))"
    by code_simp
  have m5: "(Tab3, Plotly_chart (Fig_scatter (example_df\<lparr>rows := [rows example_df ! 1]\<rparr>)))
      \<in> set (fst (script (Parsed example_csv) example_widgets_guard))"
    by code_simp
  have l: "length (analysis_figures (fst (script (Parsed example_csv) example_widgets))) = 5"
    by code_simp
  have e: "analysis_figures (fst (script (Parsed example_csv) example_widgets_centre)) = []"
    by code_simp
  from t m1 have p1: "position_counts example_df = Inr [(''C'', 1), (''PG'', 1)]"
    by blast
  from t m3 have p3: "team_stats example_df =
      Inr [(''DEN'', Fin 30, Fin 12, Fin 10, Fin 40), (''LAL'', Fin 20, Fin 8, Fin 8, Fin 30)]"
    by blast
  have p2: "position_stats example_df =
      Inr [(''C'', Fin 30, Fin 12, Fin 10, Fin 40), (''PG'', Fin 20, Fin 8, Fin 8, Fin 30)]"
    by code_simp
  from t c1 c2 have eq: "analysis_figures (fst (script (Parsed example_csv) example_widgets_guard)) =
      analysis_figures (fst (script (Parsed example_csv) example_widgets))"
    by simp
  from t m4 have s1: "snd (sidebar example_df example_widgets) = Inr example_df"
    by blast
  from t m5 have s2: "snd (sidebar example_df example_widgets_guard) =
      Inr (example_df\<lparr>rows := [rows example_df ! 1]\<rparr>)"
    by blast
  from example_load c1 c2 c3 p1 p2 p3 l eq e s1 s2 show ?thesis
    by (intro conjI)
qed

section \<open>The elements of a complete page\<close>

lemma sidebar_places_drawn:
  assumes "StrCol Season \<in> set (columns df)" "StrCol Name \<in> set (columns df)"
    "StrCol Position \<in> set (columns df)"
  shows "map fst (fst (sidebar df w)) =
     [Sidebar, Sidebar, Sidebar, Sidebar, Sidebar, Sidebar, Sidebar, Body, Body, Body]"
  using assms
  by (simp add: sidebar_def bind_r_simps series_str_def select_eq_Inr emit_def lift_r_def)





section \<open>An empty selection\<close>






section \<open>A file that cannot be loaded\<close>

lemma map_e_row_num:
  "map_e (row_num df r) ks =
     (case find (\<lambda>k. NumCol k \<notin> set (columns df)) ks of
        None \<Rightarrow> Inr (map (\<lambda>k. num_field k r) ks)
      | Some k \<Rightarrow> Inl (KeyError (NumCol k)))"
  by (induction ks) (auto simp: row_num_def split: option.splits)

text \<open>The frame of one player: its first row, or IndexError.\<close>

lemma player_row_cases:
  assumes "StrCol Name \<in> set (columns df)"
  shows "bind_e (select_eq df Name v) iloc0 = Inl IndexError \<or>
         (\<exists>r. r \<in> set (rows df) \<and> bind_e (select_eq df Name v) iloc0 = Inr r)"
proof (cases "filter (\<lambda>r. Some (name r) = v) (rows df)")
  case Nil
  with assms show ?thesis by (simp add: select_eq_Inr iloc0_def)
next
  case (Cons r rs)
  then have "r \<in> set (filter (\<lambda>r. Some (name r) = v) (rows df))" by simp
  then have "r \<in> set (rows df)" by simp
  with Cons assms show ?thesis by (simp add: select_eq_Inr iloc0_def)
qed

lemma radar_trace_cases:
  assumes "StrCol Name \<in> set (columns f)"
  shows "radar_trace f p = Inl IndexError \<or>
         (rows f \<noteq> [] \<and>
          (case find (\<lambda>k. NumCol k \<notin> set (columns f)) categories of
             None \<Rightarrow> \<exists>vals. radar_trace f p = Inr (p, vals)
           | Some k \<Rightarrow> radar_trace f p = Inl (KeyError (NumCol k))))"
proof -
  from player_row_cases [OF assms, of "Some p"] show ?thesis
  proof
    assume "bind_e (select_eq f Name (Some p)) iloc0 = Inl IndexError"
    then have "radar_trace f p = Inl IndexError"
      by (cases "select_eq f Name (Some p)") (simp_all add: radar_trace_def)
    then show ?thesis by simp
  next
    assume "\<exists>r. r \<in> set (rows f) \<and> bind_e (select_eq f Name (Some p)) iloc0 = Inr r"
    then obtain r where r: "r \<in> set (rows f)"
      "bind_e (select_eq f Name (Some p)) iloc0 = Inr r"
      by blast
    from r(2) obtain s where s: "select_eq f Name (Some p) = Inr s" "iloc0 s = Inr r"
      by (cases "select_eq f Name (Some p)") simp_all
    have "radar_trace f p =
        bind_e (map_e (row_num f r) categories) (\<lambda>vals. Inr (p, vals))"
      by (simp add: radar_trace_def s)
    with r(1) show ?thesis
      by (auto simp: map_e_row_num split: option.splits)
  qed
qed


lemma radar_loop_cases:
  assumes "StrCol Name \<in> set (columns f)"
    and "find (\<lambda>k. NumCol k \<notin> set (columns f)) categories = None"
  shows "map_e (radar_trace f) ps = Inl IndexError \<or> (\<exists>ts. map_e (radar_trace f) ps = Inr ts)"
proof (induction ps)
  case Nil
  then show ?case by simp
next
  case (Cons p ps)
  from radar_trace_cases [OF assms(1), of p] assms(2)
  have "radar_trace f p = Inl IndexError \<or> (\<exists>vals. radar_trace f p = Inr (p, vals))"
    by auto
  with Cons show ?case by auto
qed

lemma py_max_Inr: "xs \<noteq> [] \<Longrightarrow> \<exists>m. py_max xs = Inr m"
  by (simp add: py_max_def)

lemma radar_range_Inr:
  assumes "find (\<lambda>k. NumCol k \<notin> set (columns f)) categories = None" "rows f \<noteq> []"
  shows "\<exists>top. radar_range f = Inr top"
proof -
  have "series_num f k = Inr (map (num_field k) (rows f))" if "k \<in> set categories" for k
    using assms(1) that by (auto simp: series_num_def find_None_iff)
  then have "\<exists>m. bind_e (series_num f k) py_max = Inr m" if "k \<in> set categories" for k
    using that assms(2) py_max_Inr [of "map (num_field k) (rows f)"] by auto
  then obtain a b c d e where
    "bind_e (series_num f Ppg) py_max = Inr a" "bind_e (series_num f Rpg) py_max = Inr b"
    "bind_e (series_num f Apg) py_max = Inr c" "bind_e (series_num f Spg) py_max = Inr d"
    "bind_e (series_num f Bpg) py_max = Inr e"
    unfolding categories_def by (metis list.set_intros)
  then show ?thesis
    by (simp add: radar_range_def categories_def py_max_def)
qed

lemma tab1_cases:
  assumes sel: "selected_players w \<noteq> []"
    and nm: "StrCol Name \<in> set (columns f)"
  shows "case find (\<lambda>k. NumCol k \<notin> set (columns f)) categories of
           None \<Rightarrow> snd (tab1 f w) = Inr () \<or> snd (tab1 f w) = Inl IndexError
         | Some k \<Rightarrow>
             snd (tab1 f w) = Inl (KeyError (NumCol k)) \<or>
             (k \<in> {Spg, Bpg} \<and> snd (tab1 f w) = Inl IndexError)"
proof -
  let ?c = "f\<lparr>rows := filter (\<lambda>r. name r \<in> set (selected_players w)) (rows f)\<rparr>"
  obtain p ps where p: "selected_players w = p # ps"
    using sel by (cases "selected_players w") auto
  have c: "select_isin f Name (selected_players w) = Inr ?c"
    using nm by (simp add: select_isin_Inr)
  have cn: "StrCol Name \<in> set (columns ?c)" and cc: "columns ?c = columns f"
    using nm by simp_all
  show ?thesis
  proof (cases "find (\<lambda>k. NumCol k \<notin> set (columns f)) categories")
    case None
    then have all: "NumCol Ppg \<in> set (columns f)" "NumCol Rpg \<in> set (columns f)"
      "NumCol Apg \<in> set (columns f)" "NumCol Spg \<in> set (columns f)"
      "NumCol Bpg \<in> set (columns f)"
      by (simp_all add: categories_def split: if_splits)
    have none: "find (\<lambda>k. NumCol k \<notin> set (columns ?c)) categories = None"
      using None by simp
    have ml: "\<exists>st. melt_players ?c = Inr st"
      using nm all by (simp add: melt_players_def series_str_def series_num_def)
    from radar_loop_cases [OF cn none, of "selected_players w"]
    have "snd (tab1 f w) = Inr () \<or> snd (tab1 f w) = Inl IndexError"
    proof
      assume "map_e (radar_trace ?c) (selected_players w) = Inl IndexError"
      with sel all ml have "snd (tab1 f w) = Inl IndexError"
        by (auto simp: tab1_def snd_bind_r c comparison_metric_def series_num_def)
      then show ?thesis by simp
    next
      assume "\<exists>ts. map_e (radar_trace ?c) (selected_players w) = Inr ts"
      then obtain ts where ts: "map_e (radar_trace ?c) (selected_players w) = Inr ts"
        by blast
      then have "radar_trace ?c p \<noteq> Inl IndexError"
        by (auto simp: p)
      with radar_trace_cases [OF cn, of p] have "rows ?c \<noteq> []"
        by blast
      from radar_range_Inr [OF none this] obtain top where "radar_range ?c = Inr top"
        by blast
      with sel all ml ts have "snd (tab1 f w) = Inr ()"
        by (auto simp: tab1_def snd_bind_r c comparison_metric_def series_num_def)
      then show ?thesis by simp
    qed
    with None show ?thesis by simp
  next
    case (Some k)
    then have k: "NumCol k \<notin> set (columns f)" "k \<in> set categories"
      by (auto simp: find_Some_iff in_set_conv_nth)
    consider "k = Ppg" | "k = Rpg" | "k = Apg" | "k = Spg" | "k = Bpg"
      using k(2) by (auto simp: categories_def)
    then have "snd (tab1 f w) = Inl (KeyError (NumCol k)) \<or>
        (k \<in> {Spg, Bpg} \<and> snd (tab1 f w) = Inl IndexError)"
    proof cases
      case 1
      with sel k(1) show ?thesis
        by (simp add: tab1_def snd_bind_r c comparison_metric_def series_num_def)
    next
      case 2
      with Some have "NumCol Ppg \<in> set (columns f)"
        by (simp add: categories_def split: if_splits)
      with 2 sel k(1) show ?thesis
        by (simp add: tab1_def snd_bind_r c comparison_metric_def series_num_def)
    next
      case 3
      with Some have "NumCol Ppg \<in> set (columns f)" "NumCol Rpg \<in> set (columns f)"
        by (simp_all add: categories_def split: if_splits)
      with 3 sel k(1) show ?thesis
        by (simp add: tab1_def snd_bind_r c comparison_metric_def series_num_def)
    next
      case 4
      with Some have pre: "NumCol Ppg \<in> set (columns f)" "NumCol Rpg \<in> set (columns f)"
        "NumCol Apg \<in> set (columns f)"
        by (simp_all add: categories_def split: if_splits)
      have ml: "\<exists>st. melt_players ?c = Inr st"
        using nm pre by (simp add: melt_players_def series_str_def series_num_def)
      from radar_trace_cases [OF cn, of p] Some
      have "radar_trace ?c p = Inl IndexError \<or> radar_trace ?c p = Inl (KeyError (NumCol k))"
        by auto
      then have "map_e (radar_trace ?c) (selected_players w) = Inl IndexError \<or>
          map_e (radar_trace ?c) (selected_players w) = Inl (KeyError (NumCol k))"
        by (auto simp: p)
      with 4 sel pre ml show ?thesis
        by (auto simp: tab1_def snd_bind_r c comparison_metric_def series_num_def)
    next
      case 5
      with Some have pre: "NumCol Ppg \<in> set (columns f)" "NumCol Rpg \<in> set (columns f)"
        "NumCol Apg \<in> set (columns f)"
        by (simp_all add: categories_def split: if_splits)
      have ml: "\<exists>st. melt_players ?c = Inr st"
        using nm pre by (simp add: melt_players_def series_str_def series_num_def)
      from radar_trace_cases [OF cn, of p] Some
      have "radar_trace ?c p = Inl IndexError \<or> radar_trace ?c p = Inl (KeyError (NumCol k))"
        by auto
      then have "map_e (radar_trace ?c) (selected_players w) = Inl IndexError \<or>
          map_e (radar_trace ?c) (selected_players w) = Inl (KeyError (NumCol k))"
        by (auto simp: p)
      with 5 sel pre ml show ?thesis
        by (auto simp: tab1_def snd_bind_r c comparison_metric_def series_num_def)
    qed
    with Some show ?thesis by simp
  qed
qed


text \<open>The Individual Stats tab when a column is missing.\<close>

lemma tab2_no_row:
  assumes "StrCol Name \<in> set (columns df)"
    and "bind_e (select_eq df Name (selected_player w)) iloc0 = Inl IndexError"
  shows "snd (tab2 df w) = Inl IndexError \<and> length (fst (tab2 df w)) = 2"
  using assms by (simp add: tab2_def bind_r_simps series_str_def)

lemma tab2_missing:
  assumes nm: "StrCol Name \<in> set (columns df)"
    and r: "bind_e (select_eq df Name (selected_player w)) iloc0 = Inr r"
    and c: "find (\<lambda>c. c \<notin> set (columns df))
        [NumCol Ppg, NumCol Rpg, NumCol Apg, NumCol Spg, NumCol Bpg, NumCol Fg_pct,
         NumCol Efficiency, StrCol Team] = Some c"
  shows "snd (tab2 df w) = Inl (KeyError c) \<and> 12 + length (fst (tab2 df w)) = drawn_before c"
  using assms
  by (auto simp: tab2_def player_metric_def bind_r_simps series_str_def row_num_def
      row_str_def split: if_splits)


lemma sidebar_no_name:
  assumes "StrCol Season \<in> set (columns df)" "StrCol Name \<notin> set (columns df)"
  shows "snd (sidebar df w) = Inl (KeyError (StrCol Name)) \<and> length (fst (sidebar df w)) = 5"
  using assms by (simp add: sidebar_def bind_r_simps series_str_def select_eq_Inr)

lemma sidebar_no_position:
  assumes "StrCol Season \<in> set (columns df)" "StrCol Name \<in> set (columns df)"
    "StrCol Position \<notin> set (columns df)"
  shows "snd (sidebar df w) = Inl (KeyError (StrCol Position)) \<and>
         length (fst (sidebar df w)) = 6"
  using assms by (simp add: sidebar_def bind_r_simps series_str_def select_eq_Inr)

lemma page_sidebar_fails:
  "snd (sidebar df w) = Inl e \<Longrightarrow> snd (page df w) = Inl e \<and> fst (page df w) = fst (sidebar df w)"
  by (simp add: page_def snd_bind_r fst_bind_r)

lemma page_tab1_fails:
  "snd (sidebar df w) = Inr f \<Longrightarrow> snd (tab1 f w) = Inl e \<Longrightarrow>
     snd (page df w) = Inl e \<and> fst (page df w) = fst (sidebar df w) @ fst (tab1 f w)"
  by (simp add: page_def snd_bind_r fst_bind_r)

lemma page_tab2_fails:
  "snd (sidebar df w) = Inr f \<Longrightarrow> snd (tab1 f w) = Inr () \<Longrightarrow> snd (tab2 df w) = Inl e \<Longrightarrow>
     snd (page df w) = Inl e \<and>
     fst (page df w) = fst (sidebar df w) @ fst (tab1 f w) @ fst (tab2 df w)"
  by (simp add: page_def snd_bind_r fst_bind_r)

lemma page_missing_column:
  assumes season: "StrCol Season \<in> set (columns df)"
    and c: "find (\<lambda>c. c \<notin> set (columns df)) use_order = Some c"
  shows "(snd (page df w) = Inl (KeyError c) \<or>
          (c \<noteq> StrCol Name \<and> c \<noteq> StrCol Position \<and> snd (page df w) = Inl IndexError)) \<and>
         ((c = StrCol Name \<or> c = StrCol Position \<or> selected_players w = []) \<and>
          snd (page df w) = Inl (KeyError c) \<longrightarrow>
            length (fst (page df w)) = drawn_before c) \<and>
         (selectbox_returns (unique (map name (rows df))) (selected_player w) \<and>
          rows df \<noteq> [] \<and> selected_players w = [] \<longrightarrow>
            snd (page df w) = Inl (KeyError c))"
proof -
  consider (name) "c = StrCol Name" "StrCol Name \<notin> set (columns df)"
    | (position) "c = StrCol Position" "StrCol Name \<in> set (columns df)"
        "StrCol Position \<notin> set (columns df)"
    | (later) "StrCol Name \<in> set (columns df)" "StrCol Position \<in> set (columns df)"
        "find (\<lambda>c. c \<notin> set (columns df))
           [NumCol Ppg, NumCol Rpg, NumCol Apg, NumCol Spg, NumCol Bpg, NumCol Fg_pct,
            NumCol Efficiency, StrCol Team] = Some c"
    using c by (auto simp: use_order_def split: if_splits)
  then show ?thesis
  proof cases
    case name
    from sidebar_no_name [OF season name(2), of w] page_sidebar_fails [of df w]
    show ?thesis by (simp add: name(1))
  next
    case position
    from sidebar_no_position [OF season position(2,3), of w] page_sidebar_fails [of df w]
    show ?thesis by (simp add: position(1))
  next
    case later
    have cne: "c \<noteq> StrCol Name" "c \<noteq> StrCol Position"
      using later by (auto split: if_splits)
    let ?f = "df\<lparr>rows :=
       filter (\<lambda>r. selected_position w \<noteq> ''All'' \<longrightarrow> position r = selected_position w)
         (filter (\<lambda>r. Some (season r) = selected_season w) (rows df))\<rparr>"
    have f: "snd (sidebar df w) = Inr ?f"
      by (rule sidebar_result [OF season later(1,2)])
    have len: "length (fst (sidebar df w)) = 10"
      using arg_cong [OF sidebar_places_drawn [OF season later(1,2), of w], of length]
      by simp
    have fn: "StrCol Name \<in> set (columns ?f)"
      using later(1) by simp
    show ?thesis
    proof (cases "selected_players w = []")
      case True
      have t1: "snd (tab1 ?f w) = Inr ()" "length (fst (tab1 ?f w)) = 2"
        by (simp_all add: tab1_empty_selection [OF True])
      from player_row_cases [OF later(1), of "selected_player w"] show ?thesis
      proof
        assume a: "bind_e (select_eq df Name (selected_player w)) iloc0 = Inl IndexError"
        have no: "\<not> (selectbox_returns (unique (map name (rows df))) (selected_player w) \<and>
            rows df \<noteq> [])"
        proof
          assume "selectbox_returns (unique (map name (rows df))) (selected_player w) \<and>
            rows df \<noteq> []"
          then obtain r where "r \<in> set (rows df)" "selected_player w = Some (name r)"
            by (auto simp: selectbox_returns_def)
          then have "filter (\<lambda>x. Some (name x) = selected_player w) (rows df) \<noteq> []"
            by (auto simp: filter_empty_conv)
          with a later(1) show False
            by (cases "filter (\<lambda>x. Some (name x) = selected_player w) (rows df)")
               (simp_all add: select_eq_Inr iloc0_def)
        qed
        from tab2_no_row [OF later(1) a] page_tab2_fails [OF f t1(1), of IndexError]
        have "snd (page df w) = Inl IndexError" by simp
        with cne no show ?thesis by auto
      next
        assume "\<exists>r. r \<in> set (rows df) \<and>
          bind_e (select_eq df Name (selected_player w)) iloc0 = Inr r"
        then obtain r where "bind_e (select_eq df Name (selected_player w)) iloc0 = Inr r"
          by blast
        from tab2_missing [OF later(1) this later(3)]
          page_tab2_fails [OF f t1(1), of "KeyError c"] len t1(2)
        show ?thesis by simp
      qed
    next
      case False
      note t1 = tab1_cases [OF False fn]
      show ?thesis
      proof (cases "find (\<lambda>k. NumCol k \<notin> set (columns ?f)) categories")
        case (Some k)
        with later(3) have ck: "c = NumCol k"
          by (auto simp: categories_def split: if_splits)
        from t1 Some have "snd (tab1 ?f w) = Inl (KeyError c) \<or> snd (tab1 ?f w) = Inl IndexError"
          by (auto simp: ck)
        with page_tab1_fails [OF f] have
          "snd (page df w) = Inl (KeyError c) \<or> snd (page df w) = Inl IndexError"
          by auto
        with cne False show ?thesis by auto
      next
        case None
        with t1 have "snd (tab1 ?f w) = Inr () \<or> snd (tab1 ?f w) = Inl IndexError"
          by simp
        then show ?thesis
        proof
          assume "snd (tab1 ?f w) = Inl IndexError"
          with page_tab1_fails [OF f] cne False show ?thesis by auto
        next
          assume ok: "snd (tab1 ?f w) = Inr ()"
          from player_row_cases [OF later(1), of "selected_player w"] show ?thesis
          proof
            assume "bind_e (select_eq df Name (selected_player w)) iloc0 = Inl IndexError"
            from tab2_no_row [OF later(1) this] page_tab2_fails [OF f ok, of IndexError]
              cne False
            show ?thesis by auto
          next
            assume "\<exists>r. r \<in> set (rows df) \<and>
              bind_e (select_eq df Name (selected_player w)) iloc0 = Inr r"
            then obtain r where
              "bind_e (select_eq df Name (selected_player w)) iloc0 = Inr r"
              by blast
            from tab2_missing [OF later(1) this later(3)]
              page_tab2_fails [OF f ok, of "KeyError c"] False
            show ?thesis by auto
          qed
        qed
      qed
    qed
  qed
qed


lemma remdups_replicate: "remdups (replicate n x) = (if n = 0 then [] else [x])"
  by (induction n) auto

lemma loaded_seasons:
  "rev (sort (unique (map season (rows (assign_season t v))))) =
     (if rows t = [] then [] else [v])"
  by (simp add: assign_season_def unique_def comp_def map_replicate_const remdups_replicate)

lemma sidebar_first_five:
  assumes "StrCol Season \<in> set (columns df)"
  shows "take 5 (fst (sidebar df w)) =
     [(Sidebar, Title (basketball @ '' NBA Players Dashboard'')),
      (Sidebar, Markdown ''---''),
      (Sidebar, Selectbox ''Select Season'' (rev (sort (unique (map season (rows df)))))),
      (Sidebar, Markdown ''---''),
      (Sidebar, Title ''Compare Players'')]"
  using assms
  by (cases "series_str df Name")
     (simp_all add: sidebar_def bind_r_simps series_str_def select_eq_Inr eval_nat_numeral)

lemma page_first_five:
  assumes "StrCol Season \<in> set (columns df)"
  shows "take 5 (fst (page df w)) = take 5 (fst (sidebar df w))"
proof -
  have "length (take 5 (fst (sidebar df w))) = 5"
    unfolding sidebar_first_five [OF assms] by simp
  then have "5 \<le> length (fst (sidebar df w))"
    by simp
  then show ?thesis
    by (cases "snd (sidebar df w)") (simp_all add: page_def fst_bind_r)
qed


text \<open>
  C6 (as amended). When the file is missing or cannot be parsed, \<open>load_data\<close> fails,
  the fault ends the run unrecovered, nothing is stored in the cache and no element of the
  page is drawn. A file that parses loads, whatever its columns, and the run draws the five
  elements of the sidebar that stand above line 42. When a required column is missing the
  run then ends unrecovered: with the KeyError of the missing column the script reads
  first or, when that column is neither name nor position, possibly with the IndexError of
  line 116 or 152 raised before that read. When nobody is selected, the table has a row and
  the widgets are in a state they can be in, it is the KeyError; and a run with nobody
  selected, or one that misses name or position, that ends with it has drawn exactly the
  elements above the first use of the column.
\<close>

theorem load_failure_aborts:
  "(src = Missing \<or> src = Malformed \<longrightarrow>
      (\<exists>e. load_data src = Inl e \<and> rerun None src w = (None, ([], Inl e)) \<and>
           script src w = ([], Inl e))) \<and>
   (\<forall>t. src = Parsed t \<longrightarrow>
      load_data src = Inr (assign_season t ''2024-25'') \<and>
      take 5 (fst (script src w)) =
        [(Sidebar, Title (basketball @ '' NBA Players Dashboard'')),
         (Sidebar, Markdown ''---''),
         (Sidebar, Selectbox ''Select Season'' (if rows t = [] then [] else [''2024-25''])),
         (Sidebar, Markdown ''---''),
         (Sidebar, Title ''Compare Players'')]) \<and>
   (\<forall>t c. src = Parsed t \<and> find (\<lambda>c. c \<notin> set (columns t)) use_order = Some c \<longrightarrow>
      (snd (script src w) = Inl (KeyError c) \<or>
       (c \<noteq> StrCol Name \<and> c \<noteq> StrCol Position \<and> snd (script src w) = Inl IndexError)) \<and>
      ((c = StrCol Name \<or> c = StrCol Position \<or> selected_players w = []) \<and>
       snd (script src w) = Inl (KeyError c) \<longrightarrow>
         length (fst (script src w)) = drawn_before c) \<and>
      (widgets_of (assign_season t ''2024-25'') w \<and> rows t \<noteq> [] \<and>
       selected_players w = [] \<longrightarrow>
         snd (script src w) = Inl (KeyError c)))"
proof (intro conjI impI allI)
  assume "src = Missing \<or> src = Malformed"
  then show "\<exists>e. load_data src = Inl e \<and> rerun None src w = (None, ([], Inl e)) \<and>
      script src w = ([], Inl e)"
    by (auto simp: load_data_def read_csv_def script_def rerun_def load_data_cached_def
        bind_r_lift_Inl)
next
  fix t
  assume a: "src = Parsed t"
  let ?df = "assign_season t ''2024-25''"
  from a show load: "load_data src = Inr ?df"
    by (simp add: load_data_def read_csv_def)
  have season: "StrCol Season \<in> set (columns ?df)"
    by (simp add: assign_season_columns)
  show "take 5 (fst (script src w)) =
        [(Sidebar, Title (basketball @ '' NBA Players Dashboard'')),
         (Sidebar, Markdown ''---''),
         (Sidebar, Selectbox ''Select Season'' (if rows t = [] then [] else [''2024-25''])),
         (Sidebar, Markdown ''---''),
         (Sidebar, Title ''Compare Players'')]"
    unfolding load_script [OF load] page_first_five [OF season]
      sidebar_first_five [OF season] loaded_seasons
    by (rule refl)
next
  fix t c
  assume a: "src = Parsed t \<and> find (\<lambda>c. c \<notin> set (columns t)) use_order = Some c"
  let ?df = "assign_season t ''2024-25''"
  from a have load: "load_data src = Inr ?df"
    by (simp add: load_data_def read_csv_def)
  have season: "StrCol Season \<in> set (columns ?df)"
    by (simp add: assign_season_columns)
  have "find (\<lambda>c. c \<notin> set (columns ?df)) use_order =
      find (\<lambda>c. c \<notin> set (columns t)) use_order"
    by (simp add: assign_season_columns use_order_def)
  with a have c: "find (\<lambda>c. c \<notin> set (columns ?df)) use_order = Some c"
    by simp
  note m = page_missing_column [OF season c, of w]
  from m show "snd (script src w) = Inl (KeyError c) \<or>
       (c \<noteq> StrCol Name \<and> c \<noteq> StrCol Position \<and> snd (script src w) = Inl IndexError)"
    unfolding load_script [OF load] by blast
  from m show "length (fst (script src w)) = drawn_before c"
    if "(c = StrCol Name \<or> c = StrCol Position \<or> selected_players w = []) \<and>
       snd (script src w) = Inl (KeyError c)"
    using that unfolding load_script [OF load] by blast
  from m show "snd (script src w) = Inl (KeyError c)"
    if "widgets_of ?df w \<and> rows t \<noteq> [] \<and> selected_players w = []"
    using that unfolding load_script [OF load]
    by (simp add: widgets_of_def assign_season_rows)
qed

text \<open>
  The theorem at a missing file and at the example file without its efficiency column,
  with nobody selected: twenty elements and the KeyError of line 174.
\<close>

theorem load_failure_aborts_witness:
  "load_data Missing = Inl FileNotFoundError \<and>
   script Missing example_widgets = ([], Inl FileNotFoundError) \<and>
   find (\<lambda>c. c \<notin> set (columns example_csv_short)) use_order = Some (NumCol Efficiency) \<and>
   widgets_of (assign_season example_csv_short ''2024-25'') example_widgets_none \<and>
   rows example_csv_short \<noteq> [] \<and>
   selected_players example_widgets_none = [] \<and>
   load_data (Parsed example_csv_short) = Inr (assign_season example_csv_short ''2024-25'') \<and>
   snd (script (Parsed example_csv_short) example_widgets_none) =
     Inl (KeyError (NumCol Efficiency)) \<and>
   length (fst (script (Parsed example_csv_short) example_widgets_none)) = 20"
proof -
  have m: "load_data Missing = Inl FileNotFoundError"
    by (simp add: load_data_def read_csv_def)
  have c: "find (\<lambda>c. c \<notin> set (columns example_csv_short)) use_order =
      Some (NumCol Efficiency)"
    by (simp add: use_order_def example_csv_short_def)
  have w: "widgets_of (assign_season example_csv_short ''2024-25'') example_widgets_none"
    by (simp add: widgets_of_def selectbox_returns_def multiselect_returns_def
        assign_season_def example_csv_short_def example_csv_def example_widgets_def
        example_widgets_none_def unique_def)
  have n: "rows example_csv_short \<noteq> []"
    by (simp add: example_csv_short_def example_csv_def)
  have s: "selected_players example_widgets_none = []"
    by (simp add: example_widgets_none_def)
  from load_failure_aborts [of Missing example_widgets] m
  have 1: "script Missing example_widgets = ([], Inl FileNotFoundError)"
    by auto
  note p = load_failure_aborts [of "Parsed example_csv_short" example_widgets_none]
  from p have 2: "load_data (Parsed example_csv_short) =
      Inr (assign_season example_csv_short ''2024-25'')"
    by blast
  from p c w n s have 3: "snd (script (Parsed example_csv_short) example_widgets_none) =
      Inl (KeyError (NumCol Efficiency))"
    by blast
  from p c s 3 have "length (fst (script (Parsed example_csv_short) example_widgets_none)) =
      drawn_before (NumCol Efficiency)"
    by blast
  with m c w n s 1 2 3 show ?thesis by simp
qed

text \<open>
  C6 as stated fails for a missing column: without the efficiency column
  \<open>load_data\<close> returns a table, and with both players compared the run draws
  twenty-five elements, the sidebar, the whole comparison tab and the individual stats up
  to the field goal metric, before line 174 raises KeyError.
\<close>

theorem load_failure_aborts_counterexample:
  "NumCol Efficiency \<in> set required_columns \<and>
   NumCol Efficiency \<notin> set (columns example_csv_short) \<and>
   load_data (Parsed example_csv_short) = Inr (assign_season example_csv_short ''2024-25'') \<and>
   widgets_of (assign_season example_csv_short ''2024-25'') example_widgets \<and>
   length (fst (script (Parsed example_csv_short) example_widgets)) = 25 \<and>
   last (fst (script (Parsed example_csv_short) example_widgets)) =
     (Tab2, Metric ''Field Goal %'' ''58.0%'' None) \<and>
   snd (script (Parsed example_csv_short) example_widgets) = Inl (KeyError (NumCol Efficiency))"
  by (intro conjI; code_simp)

section \<open>The loaded table over a session\<close>




end
